theory Spec2Isabelle
  imports Main "HOL-Library.Sublist"
begin

section \<open>The JavaScript values the converters handle\<close>

text \<open>
  The converters of \<^verbatim>\<open>src/converters.ts\<close> work on untyped JavaScript values: the
  tree that the XML parser returns, and the record under construction, whose
  properties are strings, arrays, \<^verbatim>\<open>null\<close> or \<^verbatim>\<open>undefined\<close>. A string is a list
  of 8-bit characters here, so the model covers the code units below 256.
  An object is the list of its properties in insertion order.
\<close>

datatype error = TypeError | ParseError

datatype jsval =
    Undefined
  | Null
  | Str string
  | Arr "jsval list"
  | Obj "(string \<times> jsval) list"

text \<open>
  \<^verbatim>\<open>v[k]\<close> for a property name \<^verbatim>\<open>k\<close>. Reading a property of \<^verbatim>\<open>undefined\<close> or
  \<^verbatim>\<open>null\<close> throws a TypeError; a string or an array has none of the names the
  converters ask for (no element name of the source is a prototype property), so
  the read yields \<^verbatim>\<open>undefined\<close>.
\<close>

fun getProp :: "jsval \<Rightarrow> string \<Rightarrow> error + jsval" where
  "getProp Undefined k = Inl TypeError"
| "getProp Null k = Inl TypeError"
| "getProp (Str s) k = Inr Undefined"
| "getProp (Arr xs) k = Inr Undefined"
| "getProp (Obj kvs) k = Inr (case map_of kvs k of None \<Rightarrow> Undefined | Some v \<Rightarrow> v)"

text \<open>\<^verbatim>\<open>v[0]\<close>, the only index the converters use.\<close>

fun getIdx0 :: "jsval \<Rightarrow> error + jsval" where
  "getIdx0 Undefined = Inl TypeError"
| "getIdx0 Null = Inl TypeError"
| "getIdx0 (Str s) = Inr (case s of [] \<Rightarrow> Undefined | c # _ \<Rightarrow> Str [c])"
| "getIdx0 (Arr xs) = Inr (case xs of [] \<Rightarrow> Undefined | x # _ \<Rightarrow> x)"
| "getIdx0 (Obj kvs) = Inr (case map_of kvs ''0'' of None \<Rightarrow> Undefined | Some v \<Rightarrow> v)"

text \<open>A chain of accesses \<^verbatim>\<open>v['a'][0]['b']...\<close>, evaluated left to right.\<close>

datatype step = Key string | Idx0

fun getStep :: "jsval \<Rightarrow> step \<Rightarrow> error + jsval" where
  "getStep v (Key k) = getProp v k"
| "getStep v Idx0 = getIdx0 v"

fun getPath :: "jsval \<Rightarrow> step list \<Rightarrow> error + jsval" where
  "getPath v [] = Inr v"
| "getPath v (s # ss) = (case getStep v s of Inl e \<Rightarrow> Inl e | Inr w \<Rightarrow> getPath w ss)"

text \<open>
  \<^verbatim>\<open>v.map(f)\<close>: only an array has a callable \<^verbatim>\<open>map\<close>; the callback runs on the
  elements in order and the first exception leaves the call.
\<close>

fun mapM :: "('a \<Rightarrow> error + 'b) \<Rightarrow> 'a list \<Rightarrow> error + 'b list" where
  "mapM f [] = Inr []"
| "mapM f (x # xs) =
     (case f x of Inl e \<Rightarrow> Inl e
      | Inr y \<Rightarrow> (case mapM f xs of Inl e \<Rightarrow> Inl e | Inr ys \<Rightarrow> Inr (y # ys)))"

fun jsMap :: "(jsval \<Rightarrow> error + jsval) \<Rightarrow> jsval \<Rightarrow> error + jsval" where
  "jsMap f (Arr xs) = (case mapM f xs of Inl e \<Rightarrow> Inl e | Inr ys \<Rightarrow> Inr (Arr ys))"
| "jsMap f v = Inl TypeError"

section \<open>Strings\<close>

definition CRLF :: string where
  "CRLF = [CHR 0x0D, CHR 0x0A]"

text \<open>The characters that \<^verbatim>\<open>\s\<close> matches and that \<^verbatim>\<open>trim\<close> removes.\<close>

definition isSpace :: "char \<Rightarrow> bool" where
  "isSpace c = (c \<in> set [CHR 0x09, CHR 0x0A, CHR 0x0B, CHR 0x0C, CHR 0x0D, CHR 0x20, CHR 0xA0])"

definition isDigit :: "char \<Rightarrow> bool" where
  "isDigit c = (c \<in> set ''0123456789'')"

definition trim :: "string \<Rightarrow> string" where
  "trim s = rev (dropWhile isSpace (rev (dropWhile isSpace s)))"

text \<open>
  \<^verbatim>\<open>s.split(sep)\<close> for a non-empty separator, also \<^verbatim>\<open>s.split(/PATN\r\n/gm)\<close>,
  whose pattern is a literal: the pieces between the occurrences of the
  separator, found from left to right. The second argument is the piece read so
  far.
\<close>

function splitFrom :: "string \<Rightarrow> string \<Rightarrow> string \<Rightarrow> string list" where
  "splitFrom sep acc [] = [acc]"
| "splitFrom sep acc (c # cs) =
     (if sep \<noteq> [] \<and> prefix sep (c # cs)
      then acc # splitFrom sep [] (drop (length sep) (c # cs))
      else splitFrom sep (acc @ [c]) cs)"
  by pat_completeness auto
termination
  by (relation "measure (\<lambda>(sep, acc, s). length s)") auto

definition split :: "string \<Rightarrow> string \<Rightarrow> string list" where
  "split sep s = splitFrom sep [] s"

text \<open>
  \<^verbatim>\<open>s.split(/(CLMS|DCLM)\r\n/gm)\<close>: the pattern has a capture group, so every
  match puts the captured marker between the pieces.
\<close>

definition claimsMarker :: "string \<Rightarrow> string option" where
  "claimsMarker s =
     (if prefix (''CLMS'' @ CRLF) s then Some ''CLMS''
      else if prefix (''DCLM'' @ CRLF) s then Some ''DCLM''
      else None)"

function splitClaimsFrom :: "string \<Rightarrow> string \<Rightarrow> string list" where
  "splitClaimsFrom acc [] = [acc]"
| "splitClaimsFrom acc (c # cs) =
     (case claimsMarker (c # cs) of
        Some g \<Rightarrow> acc # g # splitClaimsFrom [] (drop 6 (c # cs))
      | None \<Rightarrow> splitClaimsFrom (acc @ [c]) cs)"
  by pat_completeness auto
termination
  by (relation "measure (\<lambda>(acc, s). length s)") auto

section \<open>The record under construction\<close>

text \<open>
  \<^verbatim>\<open>processedPatentData\<close> starts as \<^verbatim>\<open>{}\<close> and every converter assigns the same
  twelve properties in the same order, so the object is a record of twelve
  values. Reading a property that was never assigned yields \<^verbatim>\<open>undefined\<close>.
\<close>

record patentData =
  applicationNumber :: jsval
  type :: jsval
  language :: jsval
  country :: jsval
  dateProduced :: jsval
  datePublished :: jsval
  dtdVersion :: jsval
  fileName :: jsval
  patentStatus :: jsval
  patentClaims :: jsval
  inventionTitle :: jsval
  inventionId :: jsval

definition emptyData :: patentData where
  "emptyData = \<lparr>applicationNumber = Undefined, type = Undefined, language = Undefined,
     country = Undefined, dateProduced = Undefined, datePublished = Undefined,
     dtdVersion = Undefined, fileName = Undefined, patentStatus = Undefined,
     patentClaims = Undefined, inventionTitle = Undefined, inventionId = Undefined\<rparr>"

text \<open>
  \<^verbatim>\<open>try { d.f = e } catch (parsingError) { d.f = null }\<close>: the value of \<^verbatim>\<open>e\<close>
  when it has one, \<^verbatim>\<open>null\<close> when its evaluation throws.
\<close>

definition orNull :: "error + jsval \<Rightarrow> jsval" where
  "orNull r = (case r of Inl e \<Rightarrow> Null | Inr v \<Rightarrow> v)"

definition tryAssign ::
  "((jsval \<Rightarrow> jsval) \<Rightarrow> patentData \<Rightarrow> patentData) \<Rightarrow> error + jsval \<Rightarrow> patentData \<Rightarrow> patentData" where
  "tryAssign upd e d = (case e of Inr v \<Rightarrow> upd (\<lambda>_. v) d | Inl err \<Rightarrow> upd (\<lambda>_. Null) d)"

section \<open>Serialising the claims\<close>

text \<open>
  \<^verbatim>\<open>JSON.stringify\<close>. A string is quoted, with the quote, the backslash and the
  control characters escaped; \<^verbatim>\<open>undefined\<close> has no serialisation (the call
  returns \<^verbatim>\<open>undefined\<close>), is written \<^verbatim>\<open>null\<close> inside an array, and drops its
  property inside an object.
\<close>

definition hexDigit :: "nat \<Rightarrow> char" where
  "hexDigit n = ''0123456789abcdef'' ! (n mod 16)"

definition quoteChar :: "char \<Rightarrow> string" where
  "quoteChar c =
     (if c = CHR 0x22 then [CHR 0x5C, CHR 0x22]
      else if c = CHR 0x5C then [CHR 0x5C, CHR 0x5C]
      else if c = CHR 0x08 then [CHR 0x5C, CHR ''b'']
      else if c = CHR 0x09 then [CHR 0x5C, CHR ''t'']
      else if c = CHR 0x0A then [CHR 0x5C, CHR ''n'']
      else if c = CHR 0x0C then [CHR 0x5C, CHR ''f'']
      else if c = CHR 0x0D then [CHR 0x5C, CHR ''r'']
      else if (of_char c :: nat) < 32
        then [CHR 0x5C, CHR ''u'', CHR ''0'', CHR ''0'',
              hexDigit ((of_char c :: nat) div 16), hexDigit (of_char c :: nat)]
      else [c])"

definition quoteJSON :: "string \<Rightarrow> string" where
  "quoteJSON s = [CHR 0x22] @ concat (map quoteChar s) @ [CHR 0x22]"

fun joinWith :: "string \<Rightarrow> string list \<Rightarrow> string" where
  "joinWith sep [] = []"
| "joinWith sep [x] = x"
| "joinWith sep (x # y # ys) = x @ sep @ joinWith sep (y # ys)"

fun stringify :: "jsval \<Rightarrow> string option" where
  "stringify Undefined = None"
| "stringify Null = Some ''null''"
| "stringify (Str s) = Some (quoteJSON s)"
| "stringify (Arr xs) =
     Some (''['' @ joinWith '',''
        (map (\<lambda>x. case stringify x of None \<Rightarrow> ''null'' | Some t \<Rightarrow> t) xs) @ '']'')"
| "stringify (Obj kvs) =
     Some (''{'' @ joinWith '',''
        (concat (map (\<lambda>kv. case stringify (snd kv) of None \<Rightarrow> []
                             | Some t \<Rightarrow> [quoteJSON (fst kv) @ '':'' @ t]) kvs)) @ ''}'')"

text \<open>
  \<^verbatim>\<open>{...typedPatentProcessedData, patentClaims: JSON.stringify(...)}\<close>: the same
  twelve properties, the claims replaced by their serialisation.
\<close>

definition toSchema :: "patentData \<Rightarrow> patentData" where
  "toSchema d =
     d\<lparr>patentClaims :=
        (case stringify (patentClaims d) of None \<Rightarrow> Undefined | Some s \<Rightarrow> Str s)\<rparr>"

text \<open>\<^verbatim>\<open>Object.values(r)\<close> and the test that guards the push of a record.\<close>

definition objectValues :: "patentData \<Rightarrow> jsval list" where
  "objectValues r = [applicationNumber r, type r, language r, country r, dateProduced r,
     datePublished r, dtdVersion r, fileName r, patentStatus r, patentClaims r,
     inventionTitle r, inventionId r]"

definition everyNull :: "patentData \<Rightarrow> bool" where
  "everyNull r = list_all (\<lambda>v. v = Null) (objectValues r)"

section \<open>The legacy text dialect\<close>

subsection \<open>The claim lines\<close>

text \<open>\<^verbatim>\<open>/^NUM\s{2}[0-9]{1,}[.]$/.test(l)\<close>\<close>

definition isNumLine :: "string \<Rightarrow> bool" where
  "isNumLine l =
     (case l of
        a # b # c # w1 # w2 # rest \<Rightarrow>
          [a, b, c] = ''NUM'' \<and> isSpace w1 \<and> isSpace w2 \<and>
          takeWhile isDigit rest \<noteq> [] \<and> dropWhile isDigit rest = ''.''
      | _ \<Rightarrow> False)"

text \<open>\<^verbatim>\<open>/^STM\s{2}/.test(l)\<close>\<close>

definition isStmLine :: "string \<Rightarrow> bool" where
  "isStmLine l =
     (case l of
        a # b # c # w1 # w2 # rest \<Rightarrow> [a, b, c] = ''STM'' \<and> isSpace w1 \<and> isSpace w2
      | _ \<Rightarrow> False)"

text \<open>
  \<^verbatim>\<open>l.replace(/(^PAR\s{2}[0-9]{1,}[.])|(^(PA1|PAR|PAL)\s{2})/, '')\<close>: the first
  alternative is tried first, both only at the start of the line.
\<close>

definition stripParagraph :: "string \<Rightarrow> string" where
  "stripParagraph l =
     (case l of
        a # b # c # w1 # w2 # rest \<Rightarrow>
          if [a, b, c] = ''PAR'' \<and> isSpace w1 \<and> isSpace w2 \<and>
             takeWhile isDigit rest \<noteq> [] \<and> take 1 (dropWhile isDigit rest) = ''.''
          then drop 1 (dropWhile isDigit rest)
          else if [a, b, c] \<in> set [''PA1'', ''PAR'', ''PAL''] \<and> isSpace w1 \<and> isSpace w2
          then rest
          else l
      | _ \<Rightarrow> l)"

text \<open>
  The loop over \<^verbatim>\<open>claimLines\<close>. The state is \<^verbatim>\<open>claimData\<close>, \<^verbatim>\<open>claimNumber\<close> and
  \<^verbatim>\<open>accumulatedClaimLine\<close>; \<^verbatim>\<open>n\<close> is \<^verbatim>\<open>claimLines.length\<close>. On a claim-number
  line, \<^verbatim>\<open>claimLine.split('  ')[1].trim()\<close> throws when the split has no second
  piece.
\<close>

fun claimLoop ::
  "nat \<Rightarrow> string list \<Rightarrow> string list \<times> string \<times> string \<Rightarrow> error + string list \<times> string \<times> string" where
  "claimLoop n [] st = Inr st"
| "claimLoop n (claimLine # rest) (claimData, claimNumber, accumulated) =
     (if isNumLine claimLine then
        (let claimData' = (if accumulated \<noteq> [] then claimData @ [accumulated] else claimData)
         in case split ''  '' claimLine of
              _ # num # _ \<Rightarrow> claimLoop n rest (claimData', trim num, [])
            | _ \<Rightarrow> Inl TypeError)
      else if isStmLine claimLine then claimLoop n rest (claimData, claimNumber, accumulated)
      else
        (let accumulated' = accumulated @ trim (stripParagraph claimLine) @ '' '';
             claimData' = (if n = 1 then claimData @ [accumulated'] else claimData)
         in claimLoop n rest (claimData', claimNumber, accumulated')))"

definition assembleClaims :: "string list \<Rightarrow> error + string list" where
  "assembleClaims claimLines =
     (case claimLoop (length claimLines) claimLines ([], ''1.'', []) of
        Inl e \<Rightarrow> Inl e
      | Inr (claimData, claimNumber, accumulated) \<Rightarrow> Inr (map trim claimData))"

definition pftapsClaimLines :: "string \<Rightarrow> string list" where
  "pftapsClaimLines section = split CRLF (trim (last (splitClaimsFrom [] section)))"

definition pftapsClaims :: "string \<Rightarrow> error + jsval" where
  "pftapsClaims section =
     (case assembleClaims (pftapsClaimLines section) of
        Inl e \<Rightarrow> Inl e
      | Inr claimData \<Rightarrow> Inr (Arr (map Str claimData)))"

subsection \<open>The fields\<close>

text \<open>
  \<^verbatim>\<open>section.split('\r\n').filter(l => l.startsWith(p))[0].split(p)[1]\<close>: with no
  line of that prefix, \<^verbatim>\<open>[0]\<close> is \<^verbatim>\<open>undefined\<close> and the call of \<^verbatim>\<open>split\<close> throws.
\<close>

definition pftapsField :: "string \<Rightarrow> string \<Rightarrow> error + jsval" where
  "pftapsField p section =
     (case filter (prefix p) (split CRLF section) of
        [] \<Rightarrow> Inl TypeError
      | l # _ \<Rightarrow> Inr (case split p l of _ # v # _ \<Rightarrow> Str v | _ \<Rightarrow> Undefined))"

text \<open>
  \<^verbatim>\<open>section.split('\r\n').some(l => /^DCLM\r\n$/.test(l)) === true ? 'design' : 'utility'\<close>:
  the pattern has no flag, so it matches the one string \<^verbatim>\<open>DCLM\r\n\<close>.
\<close>

definition pftapsType :: "string \<Rightarrow> error + jsval" where
  "pftapsType section =
     Inr (if list_ex (\<lambda>patentLine. patentLine = ''DCLM'' @ CRLF) (split CRLF section)
          then Str ''design'' else Str ''utility'')"

text \<open>The five lookups by line prefix; the id reads the line of the publication date.\<close>

definition pftapsApplicationNumber :: "string \<Rightarrow> error + jsval" where
  "pftapsApplicationNumber section = pftapsField ''PNO  '' section"

definition pftapsDateProduced :: "string \<Rightarrow> error + jsval" where
  "pftapsDateProduced section = pftapsField ''APD  '' section"

definition pftapsDatePublished :: "string \<Rightarrow> error + jsval" where
  "pftapsDatePublished section = pftapsField ''ISD  '' section"

definition pftapsInventionTitle :: "string \<Rightarrow> error + jsval" where
  "pftapsInventionTitle section = pftapsField ''TTL  '' section"

definition pftapsInventionId :: "string \<Rightarrow> error + jsval" where
  "pftapsInventionId section = pftapsField ''ISD  '' section"

definition pftapsProcessedPatentData :: "jsval \<Rightarrow> string \<Rightarrow> patentData" where
  "pftapsProcessedPatentData pftapsFileName section =
     (tryAssign inventionId_update (pftapsInventionId section)
      \<circ> tryAssign inventionTitle_update (pftapsInventionTitle section)
      \<circ> tryAssign patentClaims_update (pftapsClaims section)
      \<circ> tryAssign patentStatus_update (Inr Null)
      \<circ> tryAssign fileName_update (Inr pftapsFileName)
      \<circ> tryAssign dtdVersion_update (Inr Null)
      \<circ> tryAssign datePublished_update (pftapsDatePublished section)
      \<circ> tryAssign dateProduced_update (pftapsDateProduced section)
      \<circ> tryAssign country_update (Inr Null)
      \<circ> tryAssign language_update (Inr Null)
      \<circ> tryAssign type_update (pftapsType section)
      \<circ> tryAssign applicationNumber_update (pftapsApplicationNumber section)) emptyData"

subsection \<open>The converter\<close>

text \<open>
  The loop over the sections: a record is pushed unless every value of its
  schema form is \<^verbatim>\<open>null\<close>.
\<close>

fun pftapsLoop :: "jsval \<Rightarrow> string list \<Rightarrow> patentData list \<Rightarrow> patentData list" where
  "pftapsLoop pftapsFileName [] usptoBulkPatentData = usptoBulkPatentData"
| "pftapsLoop pftapsFileName (section # rest) usptoBulkPatentData =
     (let processedPatentSchemaData = toSchema (pftapsProcessedPatentData pftapsFileName section)
      in pftapsLoop pftapsFileName rest
           (if \<not> everyNull processedPatentSchemaData
            then usptoBulkPatentData @ [processedPatentSchemaData]
            else usptoBulkPatentData))"

definition pftapsSections :: "string \<Rightarrow> string list" where
  "pftapsSections pftapsData = drop 1 (split (''PATN'' @ CRLF) pftapsData)"

definition convertUsptoPftapsDataToJs :: "string \<Rightarrow> jsval \<Rightarrow> error + patentData list" where
  "convertUsptoPftapsDataToJs pftapsData pftapsFileName =
     Inr (pftapsLoop pftapsFileName (pftapsSections pftapsData) [])"

section \<open>The XML dialects\<close>

subsection \<open>The sections of a bulk file\<close>

text \<open>
  \<^verbatim>\<open>xmlData.match(/[<]TAG\s.*?[<][/]TAG[>]/gmis)\<close> for the root tag of the dialect.
  The flag \<^verbatim>\<open>i\<close> compares the letters of the tag without case, the flag \<^verbatim>\<open>s\<close>
  lets the dot match every character, and \<^verbatim>\<open>.*?\<close> stops at the first closing
  tag. With the flag \<^verbatim>\<open>g\<close> the call returns the matches from left to right,
  each search starting where the last match ended, and \<^verbatim>\<open>null\<close> when there is
  none.
\<close>

definition upperAscii :: "char \<Rightarrow> char" where
  "upperAscii c =
     (case map_of (zip ''abcdefghijklmnopqrstuvwxyz'' ''ABCDEFGHIJKLMNOPQRSTUVWXYZ'') c of
        None \<Rightarrow> c
      | Some u \<Rightarrow> u)"

fun ciPrefix :: "string \<Rightarrow> string \<Rightarrow> bool" where
  "ciPrefix [] s = True"
| "ciPrefix (p # ps) [] = False"
| "ciPrefix (p # ps) (c # cs) = (upperAscii p = upperAscii c \<and> ciPrefix ps cs)"

text \<open>The number of characters that \<^verbatim>\<open>.*?\<close> takes before the closing tag.\<close>

fun findClose :: "string \<Rightarrow> string \<Rightarrow> nat option" where
  "findClose closing [] = None"
| "findClose closing (c # cs) =
     (if ciPrefix closing (c # cs) then Some 0
      else (case findClose closing cs of None \<Rightarrow> None | Some k \<Rightarrow> Some (Suc k)))"

text \<open>The length of the match that starts at the head of the string, if any.\<close>

definition matchAt :: "string \<Rightarrow> string \<Rightarrow> nat option" where
  "matchAt tag s =
     (if ciPrefix (''<'' @ tag) s then
        (case drop (Suc (length tag)) s of
           [] \<Rightarrow> None
         | w # rest \<Rightarrow>
             if isSpace w then
               (case findClose (''</'' @ tag @ ''>'') rest of
                  None \<Rightarrow> None
                | Some k \<Rightarrow> Some (Suc (length tag) + 1 + k + (length tag + 3)))
             else None)
      else None)"

function matchAll :: "string \<Rightarrow> string \<Rightarrow> string list" where
  "matchAll tag [] = []"
| "matchAll tag (c # cs) =
     (case matchAt tag (c # cs) of
        None \<Rightarrow> matchAll tag cs
      | Some n \<Rightarrow> take n (c # cs) # matchAll tag (drop n (c # cs)))"
  by pat_completeness auto
termination
  by (relation "measure (\<lambda>(tag, s). length s)")
     (auto simp: matchAt_def split: if_splits list.splits option.splits)

definition jsMatch :: "string \<Rightarrow> string \<Rightarrow> string list option" where
  "jsMatch tag s = (case matchAll tag s of [] \<Rightarrow> None | m # ms \<Rightarrow> Some (m # ms))"

subsection \<open>The current XML dialect\<close>

text \<open>\<^verbatim>\<open>claim => claim['claim-text'][0]\<close>\<close>

definition v4ClaimText :: "jsval \<Rightarrow> error + jsval" where
  "v4ClaimText claim = getPath claim [Key ''claim-text'', Idx0]"

definition v4Claims :: "jsval \<Rightarrow> error + jsval" where
  "v4Claims parsedPatentData =
     (case getPath parsedPatentData [Key ''us-patent-grant'', Key ''claims'', Idx0, Key ''claim''] of
        Inl e \<Rightarrow> Inl e
      | Inr claims \<Rightarrow> jsMap v4ClaimText claims)"

text \<open>The twelve lookups, one per \<^verbatim>\<open>try\<close> block, in the order of the source.\<close>

definition v4ApplicationNumber :: "jsval \<Rightarrow> error + jsval" where
  "v4ApplicationNumber parsedPatentData = getPath parsedPatentData
     [Key ''us-patent-grant'', Key ''us-bibliographic-data-grant'', Idx0,
      Key ''publication-reference'', Idx0, Key ''document-id'', Idx0,
      Key ''doc-number'', Idx0]"

definition v4Type :: "jsval \<Rightarrow> error + jsval" where
  "v4Type parsedPatentData = getPath parsedPatentData
     [Key ''us-patent-grant'', Key ''us-bibliographic-data-grant'', Idx0,
      Key ''application-reference'', Idx0, Key ''$'', Key ''appl-type'']"

definition v4Language :: "jsval \<Rightarrow> error + jsval" where
  "v4Language parsedPatentData = getPath parsedPatentData
     [Key ''us-patent-grant'', Key ''$'', Key ''lang'']"

definition v4Country :: "jsval \<Rightarrow> error + jsval" where
  "v4Country parsedPatentData = getPath parsedPatentData
     [Key ''us-patent-grant'', Key ''$'', Key ''country'']"

definition v4DateProduced :: "jsval \<Rightarrow> error + jsval" where
  "v4DateProduced parsedPatentData = getPath parsedPatentData
     [Key ''us-patent-grant'', Key ''$'', Key ''date-produced'']"

definition v4DatePublished :: "jsval \<Rightarrow> error + jsval" where
  "v4DatePublished parsedPatentData = getPath parsedPatentData
     [Key ''us-patent-grant'', Key ''$'', Key ''date-publ'']"

definition v4DtdVersion :: "jsval \<Rightarrow> error + jsval" where
  "v4DtdVersion parsedPatentData = getPath parsedPatentData
     [Key ''us-patent-grant'', Key ''$'', Key ''dtd-version'']"

definition v4FileName :: "jsval \<Rightarrow> error + jsval" where
  "v4FileName parsedPatentData = getPath parsedPatentData
     [Key ''us-patent-grant'', Key ''$'', Key ''file'']"

definition v4PatentStatus :: "jsval \<Rightarrow> error + jsval" where
  "v4PatentStatus parsedPatentData = getPath parsedPatentData
     [Key ''us-patent-grant'', Key ''$'', Key ''status'']"

definition v4InventionTitle :: "jsval \<Rightarrow> error + jsval" where
  "v4InventionTitle parsedPatentData = getPath parsedPatentData
     [Key ''us-patent-grant'', Key ''us-bibliographic-data-grant'', Idx0,
      Key ''invention-title'', Idx0, Key ''_'']"

definition v4InventionId :: "jsval \<Rightarrow> error + jsval" where
  "v4InventionId parsedPatentData = getPath parsedPatentData
     [Key ''us-patent-grant'', Key ''us-bibliographic-data-grant'', Idx0,
      Key ''invention-title'', Idx0, Key ''$'', Key ''id'']"

text \<open>The record of one section: the twelve assignments, first to last.\<close>

definition v4ProcessedPatentData :: "jsval \<Rightarrow> patentData" where
  "v4ProcessedPatentData parsedPatentData =
     (tryAssign inventionId_update (v4InventionId parsedPatentData)
      \<circ> tryAssign inventionTitle_update (v4InventionTitle parsedPatentData)
      \<circ> tryAssign patentClaims_update (v4Claims parsedPatentData)
      \<circ> tryAssign patentStatus_update (v4PatentStatus parsedPatentData)
      \<circ> tryAssign fileName_update (v4FileName parsedPatentData)
      \<circ> tryAssign dtdVersion_update (v4DtdVersion parsedPatentData)
      \<circ> tryAssign datePublished_update (v4DatePublished parsedPatentData)
      \<circ> tryAssign dateProduced_update (v4DateProduced parsedPatentData)
      \<circ> tryAssign country_update (v4Country parsedPatentData)
      \<circ> tryAssign language_update (v4Language parsedPatentData)
      \<circ> tryAssign type_update (v4Type parsedPatentData)
      \<circ> tryAssign applicationNumber_update (v4ApplicationNumber parsedPatentData)) emptyData"

text \<open>
  The loop over the sections. The parser is the library's: it is a parameter,
  a function from a section to the parsed tree or to the error it rejects with.
  The call of the parser is outside every \<^verbatim>\<open>try\<close>, so its error leaves the
  converter. Every record is pushed.
\<close>

fun v4Loop ::
  "(string \<Rightarrow> error + jsval) \<Rightarrow> string list \<Rightarrow> patentData list \<Rightarrow> error + patentData list" where
  "v4Loop parseString [] usptoBulkPatentData = Inr usptoBulkPatentData"
| "v4Loop parseString (patentXmlSection # rest) usptoBulkPatentData =
     (case parseString patentXmlSection of
        Inl e \<Rightarrow> Inl e
      | Inr parsedPatentData \<Rightarrow>
          v4Loop parseString rest
            (usptoBulkPatentData @ [toSchema (v4ProcessedPatentData parsedPatentData)]))"

text \<open>
  \<^verbatim>\<open>for (let patentXmlSection of patentXmlSections)\<close> throws a TypeError when
  \<^verbatim>\<open>match\<close> returned \<^verbatim>\<open>null\<close>, which is not iterable.
\<close>

definition convertUsptoVersion4XmlDataToJs ::
  "(string \<Rightarrow> error + jsval) \<Rightarrow> string \<Rightarrow> error + patentData list" where
  "convertUsptoVersion4XmlDataToJs parseString xmlData =
     (case jsMatch ''us-patent-grant'' xmlData of
        None \<Rightarrow> Inl TypeError
      | Some patentXmlSections \<Rightarrow> v4Loop parseString patentXmlSections [])"

subsection \<open>The older XML dialect\<close>

text \<open>\<^verbatim>\<open>claim => claim['CLM'][0]['PARA'][0]['PTEXT'][0]['PDAT'][0]\<close>\<close>

definition v2ClaimText :: "jsval \<Rightarrow> error + jsval" where
  "v2ClaimText claim =
     getPath claim [Key ''CLM'', Idx0, Key ''PARA'', Idx0, Key ''PTEXT'', Idx0, Key ''PDAT'', Idx0]"

definition v2Claims :: "jsval \<Rightarrow> error + jsval" where
  "v2Claims parsedPatentData =
     (case getPath parsedPatentData [Key ''PATDOC'', Key ''SDOCL'', Idx0, Key ''CL''] of
        Inl e \<Rightarrow> Inl e
      | Inr claims \<Rightarrow> jsMap v2ClaimText claims)"

text \<open>
  The lookups of the source, in its order. The type and the language are the
  constant \<^verbatim>\<open>null\<close>, the file name is the argument of the converter, and the
  invention's id is read by the same expression as its title.
\<close>

definition v2ApplicationNumber :: "jsval \<Rightarrow> error + jsval" where
  "v2ApplicationNumber parsedPatentData = getPath parsedPatentData
     [Key ''PATDOC'', Key ''SDOBI'', Idx0, Key ''B100'', Idx0, Key ''B110'', Idx0,
      Key ''DNUM'', Idx0, Key ''PDAT'', Idx0]"

definition v2Country :: "jsval \<Rightarrow> error + jsval" where
  "v2Country parsedPatentData = getPath parsedPatentData
     [Key ''PATDOC'', Key ''SDOBI'', Idx0, Key ''B100'', Idx0, Key ''B190'', Idx0,
      Key ''PDAT'', Idx0]"

definition v2DateProduced :: "jsval \<Rightarrow> error + jsval" where
  "v2DateProduced parsedPatentData = getPath parsedPatentData
     [Key ''PATDOC'', Key ''SDOBI'', Idx0, Key ''B100'', Idx0, Key ''B140'', Idx0,
      Key ''DATE'', Idx0, Key ''PDAT'', Idx0]"

definition v2DatePublished :: "jsval \<Rightarrow> error + jsval" where
  "v2DatePublished parsedPatentData = getPath parsedPatentData
     [Key ''PATDOC'', Key ''SDOBI'', Idx0, Key ''B200'', Idx0, Key ''B220'', Idx0,
      Key ''DATE'', Idx0, Key ''PDAT'', Idx0]"

definition v2DtdVersion :: "jsval \<Rightarrow> error + jsval" where
  "v2DtdVersion parsedPatentData = getPath parsedPatentData
     [Key ''PATDOC'', Key ''$'', Key ''DTD'']"

definition v2PatentStatus :: "jsval \<Rightarrow> error + jsval" where
  "v2PatentStatus parsedPatentData = getPath parsedPatentData
     [Key ''PATDOC'', Key ''$'', Key ''STATUS'']"

definition v2InventionTitle :: "jsval \<Rightarrow> error + jsval" where
  "v2InventionTitle parsedPatentData = getPath parsedPatentData
     [Key ''PATDOC'', Key ''SDOBI'', Idx0, Key ''B500'', Idx0, Key ''B540'', Idx0,
      Key ''STEXT'', Idx0, Key ''PDAT'', Idx0]"

definition v2InventionId :: "jsval \<Rightarrow> error + jsval" where
  "v2InventionId parsedPatentData = getPath parsedPatentData
     [Key ''PATDOC'', Key ''SDOBI'', Idx0, Key ''B500'', Idx0, Key ''B540'', Idx0,
      Key ''STEXT'', Idx0, Key ''PDAT'', Idx0]"

definition v2ProcessedPatentData :: "jsval \<Rightarrow> jsval \<Rightarrow> patentData" where
  "v2ProcessedPatentData xmlFileName parsedPatentData =
     (tryAssign inventionId_update (v2InventionId parsedPatentData)
      \<circ> tryAssign inventionTitle_update (v2InventionTitle parsedPatentData)
      \<circ> tryAssign patentClaims_update (v2Claims parsedPatentData)
      \<circ> tryAssign patentStatus_update (v2PatentStatus parsedPatentData)
      \<circ> tryAssign fileName_update (Inr xmlFileName)
      \<circ> tryAssign dtdVersion_update (v2DtdVersion parsedPatentData)
      \<circ> tryAssign datePublished_update (v2DatePublished parsedPatentData)
      \<circ> tryAssign dateProduced_update (v2DateProduced parsedPatentData)
      \<circ> tryAssign country_update (v2Country parsedPatentData)
      \<circ> tryAssign language_update (Inr Null)
      \<circ> tryAssign type_update (Inr Null)
      \<circ> tryAssign applicationNumber_update (v2ApplicationNumber parsedPatentData)) emptyData"

text \<open>
  The loop over the sections: as in the current dialect, but a record is pushed
  unless every value of its schema form is \<^verbatim>\<open>null\<close>.
\<close>

fun v2Loop ::
  "(string \<Rightarrow> error + jsval) \<Rightarrow> jsval \<Rightarrow> string list \<Rightarrow> patentData list \<Rightarrow> error + patentData list" where
  "v2Loop parseString xmlFileName [] usptoBulkPatentData = Inr usptoBulkPatentData"
| "v2Loop parseString xmlFileName (patentXmlSection # rest) usptoBulkPatentData =
     (case parseString patentXmlSection of
        Inl e \<Rightarrow> Inl e
      | Inr parsedPatentData \<Rightarrow>
          (let processedPatentSchemaData = toSchema (v2ProcessedPatentData xmlFileName parsedPatentData)
           in v2Loop parseString xmlFileName rest
                (if \<not> everyNull processedPatentSchemaData
                 then usptoBulkPatentData @ [processedPatentSchemaData]
                 else usptoBulkPatentData)))"

definition convertUsptoVersion2XmlDataToJs ::
  "(string \<Rightarrow> error + jsval) \<Rightarrow> string \<Rightarrow> jsval \<Rightarrow> error + patentData list" where
  "convertUsptoVersion2XmlDataToJs parseString xmlData xmlFileName =
     (case jsMatch ''PATDOC'' xmlData of
        None \<Rightarrow> Inl TypeError
      | Some patentXmlSections \<Rightarrow> v2Loop parseString xmlFileName patentXmlSections [])"

section \<open>The vocabulary of the properties\<close>

text \<open>
  What a field read by line prefix is expected to hold. \<^verbatim>\<open>upToNext p r\<close> is the
  text of \<^verbatim>\<open>r\<close> up to the next occurrence of \<^verbatim>\<open>p\<close>: the characters before the
  first position at which \<^verbatim>\<open>p\<close> starts, and all of \<^verbatim>\<open>r\<close> when \<^verbatim>\<open>p\<close> does not
  occur. The value of a prefix in a section is \<^verbatim>\<open>null\<close> when no line of the
  section starts with the prefix, and otherwise the text that follows the prefix
  on the first such line, up to the next occurrence of the prefix. Nothing
  follows the prefix when the first such line ends after the prefix or goes on
  with the prefix again.
\<close>

fun upToNext :: "string \<Rightarrow> string \<Rightarrow> string" where
  "upToNext p [] = []"
| "upToNext p (c # cs) = (if prefix p (c # cs) then [] else c # upToNext p cs)"

definition firstLineValue :: "string \<Rightarrow> string \<Rightarrow> jsval" where
  "firstLineValue p sec =
     (case find (prefix p) (split CRLF sec) of
        None \<Rightarrow> Null
      | Some l \<Rightarrow> Str (upToNext p (drop (length p) l)))"

definition nothingFollows :: "string \<Rightarrow> string \<Rightarrow> bool" where
  "nothingFollows p sec =
     (case find (prefix p) (split CRLF sec) of
        None \<Rightarrow> False
      | Some l \<Rightarrow> drop (length p) l = [] \<or> prefix p (drop (length p) l))"

text \<open>
  \<^verbatim>\<open>processedPatentSchemaData\<close>, the record a converter pushes for a section.
\<close>

abbreviation v4SchemaData :: "jsval \<Rightarrow> patentData" where
  "v4SchemaData tree \<equiv> toSchema (v4ProcessedPatentData tree)"

abbreviation v2SchemaData :: "jsval \<Rightarrow> jsval \<Rightarrow> patentData" where
  "v2SchemaData xmlFileName tree \<equiv> toSchema (v2ProcessedPatentData xmlFileName tree)"

abbreviation pftapsSchemaData :: "jsval \<Rightarrow> string \<Rightarrow> patentData" where
  "pftapsSchemaData pftapsFileName sec \<equiv> toSchema (pftapsProcessedPatentData pftapsFileName sec)"

text \<open>
  A field is absent when it holds \<^verbatim>\<open>null\<close> or \<^verbatim>\<open>undefined\<close> (a property that
  \<^verbatim>\<open>JSON.stringify\<close> leaves out). A lookup fails when its evaluation throws or
  finds nothing, that is \<^verbatim>\<open>undefined\<close>.
\<close>

definition absent :: "jsval \<Rightarrow> bool" where
  "absent v = (v = Null \<or> v = Undefined)"

definition lookupFails :: "error + jsval \<Rightarrow> bool" where
  "lookupFails r = (case r of Inl e \<Rightarrow> True | Inr v \<Rightarrow> v = Undefined)"

section \<open>The records in closed form\<close>

text \<open>
  Each assignment writes one property and no other, so the record a converter
  builds for a section has, in every field, the value of that field's own lookup
  or \<^verbatim>\<open>null\<close>.
\<close>

lemma tryAssign_orNull: "tryAssign upd e d = upd (\<lambda>_. orNull e) d"
  by (simp add: tryAssign_def orNull_def split: sum.splits)

lemma v4ProcessedPatentData_fields:
  "v4ProcessedPatentData p =
     \<lparr>applicationNumber = orNull (v4ApplicationNumber p), type = orNull (v4Type p),
      language = orNull (v4Language p), country = orNull (v4Country p),
      dateProduced = orNull (v4DateProduced p), datePublished = orNull (v4DatePublished p),
      dtdVersion = orNull (v4DtdVersion p), fileName = orNull (v4FileName p),
      patentStatus = orNull (v4PatentStatus p), patentClaims = orNull (v4Claims p),
      inventionTitle = orNull (v4InventionTitle p), inventionId = orNull (v4InventionId p)\<rparr>"
  by (simp add: v4ProcessedPatentData_def tryAssign_orNull emptyData_def)

lemma v2ProcessedPatentData_fields:
  "v2ProcessedPatentData f p =
     \<lparr>applicationNumber = orNull (v2ApplicationNumber p), type = Null,
      language = Null, country = orNull (v2Country p),
      dateProduced = orNull (v2DateProduced p), datePublished = orNull (v2DatePublished p),
      dtdVersion = orNull (v2DtdVersion p), fileName = f,
      patentStatus = orNull (v2PatentStatus p), patentClaims = orNull (v2Claims p),
      inventionTitle = orNull (v2InventionTitle p), inventionId = orNull (v2InventionId p)\<rparr>"
  by (simp add: v2ProcessedPatentData_def tryAssign_orNull emptyData_def orNull_def)

lemma pftapsProcessedPatentData_fields:
  "pftapsProcessedPatentData f s =
     \<lparr>applicationNumber = orNull (pftapsApplicationNumber s), type = orNull (pftapsType s),
      language = Null, country = Null,
      dateProduced = orNull (pftapsDateProduced s), datePublished = orNull (pftapsDatePublished s),
      dtdVersion = Null, fileName = f,
      patentStatus = Null, patentClaims = orNull (pftapsClaims s),
      inventionTitle = orNull (pftapsInventionTitle s), inventionId = orNull (pftapsInventionId s)\<rparr>"
  by (simp add: pftapsProcessedPatentData_def tryAssign_orNull emptyData_def orNull_def)

lemma toSchema_claims_not_Null: "patentClaims (toSchema d) \<noteq> Null"
  by (simp add: toSchema_def split: option.splits)

lemma toSchema_not_everyNull: "\<not> everyNull (toSchema d)"
  using toSchema_claims_not_Null [of d] by (simp add: everyNull_def objectValues_def)

lemma pftapsLoop_map:
  "pftapsLoop f secs out = out @ map (\<lambda>s. toSchema (pftapsProcessedPatentData f s)) secs"
  by (induction secs arbitrary: out) (simp_all add: toSchema_not_everyNull)

lemma v4Loop_mapM:
  "v4Loop parse secs out =
     (case mapM parse secs of Inl e \<Rightarrow> Inl e
      | Inr ps \<Rightarrow> Inr (out @ map (\<lambda>p. toSchema (v4ProcessedPatentData p)) ps))"
  by (induction secs arbitrary: out) (simp_all split: sum.splits)

lemma v2Loop_mapM:
  "v2Loop parse f secs out =
     (case mapM parse secs of Inl e \<Rightarrow> Inl e
      | Inr ps \<Rightarrow> Inr (out @ map (\<lambda>p. toSchema (v2ProcessedPatentData f p)) ps))"
  by (induction secs arbitrary: out) (simp_all add: toSchema_not_everyNull split: sum.splits)


text \<open>
  No piece that \<^verbatim>\<open>split\<close> returns contains the separator: the scan cuts at the
  first occurrence each time.
\<close>

lemma splitFrom_no_sep:
  "sep \<noteq> [] \<Longrightarrow> piece \<in> set (splitFrom sep acc s) \<Longrightarrow>
   (\<forall>i<length acc. \<not> prefix sep (drop i (acc @ s))) \<Longrightarrow> \<not> prefix sep (drop i piece)"
proof (induction sep acc s arbitrary: i rule: splitFrom.induct)
  case (1 sep acc)
  then have piece: "piece = acc" by simp
  show ?case
  proof (cases "i < length acc")
    case True
    with "1.prems"(3) piece show ?thesis by simp
  next
    case False
    with "1.prems"(1) piece show ?thesis by simp
  qed
next
  case (2 sep acc c cs)
  show ?case
  proof (cases "prefix sep (c # cs)")
    case True
    with "2.prems" have "piece = acc \<or> piece \<in> set (splitFrom sep [] (drop (length sep) (c # cs)))"
      by simp
    then show ?thesis
    proof
      assume piece: "piece = acc"
      show ?thesis
      proof (cases "i < length acc")
        case True
        with "2.prems"(3) have "\<not> prefix sep (drop i acc @ c # cs)" by simp
        then have "\<not> prefix sep (drop i acc)" using prefix_prefix by blast
        with piece show ?thesis by simp
      next
        case False
        with "2.prems"(1) piece show ?thesis by simp
      qed
    next
      assume "piece \<in> set (splitFrom sep [] (drop (length sep) (c # cs)))"
      with "2.IH"(1) [of i] "2.prems"(1) True show ?thesis by simp
    qed
  next
    case False
    with "2.prems" have mem: "piece \<in> set (splitFrom sep (acc @ [c]) cs)" by simp
    have "\<forall>j<length (acc @ [c]). \<not> prefix sep (drop j ((acc @ [c]) @ cs))"
    proof (intro allI impI)
      fix j assume "j < length (acc @ [c])"
      then consider "j < length acc" | "j = length acc" by fastforce
      then show "\<not> prefix sep (drop j ((acc @ [c]) @ cs))"
      proof cases
        case 1
        with "2.prems"(3) show ?thesis by simp
      next
        case 2
        with False show ?thesis by simp
      qed
    qed
    with "2.IH"(2) [of i] "2.prems"(1) False mem show ?thesis by simp
  qed
qed

lemma split_no_sep: "sep \<noteq> [] \<Longrightarrow> piece \<in> set (split sep s) \<Longrightarrow> \<not> prefix sep (drop i piece)"
  using splitFrom_no_sep [of sep piece "[]" s i] by (simp add: split_def)

text \<open>
  The loop over the claim lines runs through a list piece by piece, and lines
  that are not claim-number lines leave \<^verbatim>\<open>claimData\<close> as it is unless the
  section has a single line.
\<close>

lemma claimLoop_append:
  "claimLoop n (xs @ ys) st =
     (case claimLoop n xs st of Inl e \<Rightarrow> Inl e | Inr st' \<Rightarrow> claimLoop n ys st')"
proof (induction xs arbitrary: st)
  case Nil
  show ?case by simp
next
  case (Cons claimLine rest)
  obtain claimData claimNumber accumulated where st: "st = (claimData, claimNumber, accumulated)"
    by (cases st)
  show ?case
    by (simp add: st Let_def Cons.IH split: list.splits)
qed

lemma claimLoop_text_only:
  "n \<noteq> 1 \<Longrightarrow> \<forall>l \<in> set ts. \<not> isNumLine l \<Longrightarrow>
   \<exists>acc'. claimLoop n ts (claimData, claimNumber, acc) = Inr (claimData, claimNumber, acc')"
  by (induction ts arbitrary: acc) (simp_all add: Let_def)

text \<open>
  A line that starts with the prefix splits into the empty piece and the pieces
  of the rest, and the first piece of a split is the text up to the next
  occurrence of the separator.
\<close>

lemma splitFrom_first_piece:
  "sep \<noteq> [] \<Longrightarrow> \<exists>ps. splitFrom sep acc r = (acc @ upToNext sep r) # ps"
proof (induction sep acc r rule: splitFrom.induct)
  case (1 sep acc)
  show ?case by simp
next
  case (2 sep acc c cs)
  show ?case
  proof (cases "prefix sep (c # cs)")
    case True
    with "2.prems" show ?thesis by simp
  next
    case False
    with "2.IH"(2) "2.prems" obtain ps where
      "splitFrom sep (acc @ [c]) cs = ((acc @ [c]) @ upToNext sep cs) # ps"
      by blast
    with False show ?thesis by simp
  qed
qed

lemma upToNext_empty: "(upToNext p r = []) = (r = [] \<or> prefix p r)"
  by (cases r) simp_all

lemma split_after_prefix: "p \<noteq> [] \<Longrightarrow> split p (p @ r) = [] # split p r"
  by (cases p) (simp_all add: split_def)

lemma find_filter_case:
  "find P xs = (case filter P xs of [] \<Rightarrow> None | x # _ \<Rightarrow> Some x)"
  by (induction xs) simp_all

lemma pftapsField_value:
  assumes "p \<noteq> []"
  shows "orNull (pftapsField p sec) = firstLineValue p sec"
proof (cases "filter (prefix p) (split CRLF sec)")
  case Nil
  then show ?thesis
    by (simp add: firstLineValue_def find_filter_case pftapsField_def orNull_def)
next
  case (Cons l ls)
  then have "l \<in> set (filter (prefix p) (split CRLF sec))" by simp
  then have "prefix p l" by simp
  then obtain r where l: "l = p @ r" by (auto simp: prefix_def)
  from splitFrom_first_piece [OF assms, of "[]" r] obtain ps where
    "split p r = upToNext p r # ps"
    by (auto simp: split_def)
  with assms l have "split p l = [] # upToNext p r # ps"
    by (simp add: split_after_prefix)
  with Cons l show ?thesis
    by (simp add: firstLineValue_def find_filter_case pftapsField_def orNull_def)
qed

lemma firstLineValue_empty: "(firstLineValue p sec = Str []) = nothingFollows p sec"
  by (simp add: firstLineValue_def nothingFollows_def upToNext_empty split: option.splits)

lemma orNull_empty: "(orNull r = Str []) = (r = Inr (Str []))"
  by (cases r) (simp_all add: orNull_def)

lemma jsMap_Arr: "jsMap g v = Inr x \<Longrightarrow> \<exists>xs. x = Arr xs"
  by (cases v) (auto split: sum.splits)

lemma claims_serialised:
  assumes "\<And>x. claims = Inr x \<Longrightarrow> \<exists>xs. x = Arr xs"
  shows "\<exists>c. (case stringify (orNull claims) of None \<Rightarrow> Undefined | Some s \<Rightarrow> Str s) = Str c
           \<and> c \<noteq> []"
proof (cases claims)
  case (Inl e)
  then show ?thesis by (simp add: orNull_def)
next
  case (Inr x)
  with assms obtain xs where "x = Arr xs" by blast
  with Inr show ?thesis by (simp add: orNull_def)
qed

lemma xmlClaims_serialised:
  "\<exists>c. patentClaims (toSchema (v4ProcessedPatentData tree)) = Str c \<and> c \<noteq> []"
  "\<exists>c. patentClaims (toSchema (v2ProcessedPatentData f tree)) = Str c \<and> c \<noteq> []"
proof -
  have "\<exists>xs. x = Arr xs" if "v4Claims tree = Inr x" for x
    using that by (auto simp: v4Claims_def split: sum.splits dest: jsMap_Arr)
  from claims_serialised [of "v4Claims tree", OF this]
  show "\<exists>c. patentClaims (toSchema (v4ProcessedPatentData tree)) = Str c \<and> c \<noteq> []"
    by (simp add: v4ProcessedPatentData_fields toSchema_def)
  have "\<exists>xs. x = Arr xs" if "v2Claims tree = Inr x" for x
    using that by (auto simp: v2Claims_def split: sum.splits dest: jsMap_Arr)
  from claims_serialised [of "v2Claims tree", OF this]
  show "\<exists>c. patentClaims (toSchema (v2ProcessedPatentData f tree)) = Str c \<and> c \<noteq> []"
    by (simp add: v2ProcessedPatentData_fields toSchema_def)
qed

lemma convertV4_cases:
  "convertUsptoVersion4XmlDataToJs parse xml =
     (case jsMatch ''us-patent-grant'' xml of
        None \<Rightarrow> Inl TypeError
      | Some secs \<Rightarrow>
          (case mapM parse secs of
             Inl e \<Rightarrow> Inl e
           | Inr trees \<Rightarrow> Inr (map (\<lambda>tree. toSchema (v4ProcessedPatentData tree)) trees)))"
  by (simp add: convertUsptoVersion4XmlDataToJs_def v4Loop_mapM split: option.splits sum.splits)

lemma convertV2_cases:
  "convertUsptoVersion2XmlDataToJs parse xml f =
     (case jsMatch ''PATDOC'' xml of
        None \<Rightarrow> Inl TypeError
      | Some secs \<Rightarrow>
          (case mapM parse secs of
             Inl e \<Rightarrow> Inl e
           | Inr trees \<Rightarrow> Inr (map (\<lambda>tree. toSchema (v2ProcessedPatentData f tree)) trees)))"
  by (simp add: convertUsptoVersion2XmlDataToJs_def v2Loop_mapM split: option.splits sum.splits)

lemma convertPftaps_map:
  "convertUsptoPftapsDataToJs pftapsData f =
     Inr (map (\<lambda>sec. toSchema (pftapsProcessedPatentData f sec))
            (drop 1 (split (''PATN'' @ CRLF) pftapsData)))"
  by (simp add: convertUsptoPftapsDataToJs_def pftapsLoop_map pftapsSections_def)

lemma pftapsType_utility: "pftapsType s = Inr (Str ''utility'')"
proof -
  have "\<not> list_ex (\<lambda>patentLine. patentLine = ''DCLM'' @ CRLF) (split CRLF s)"
  proof
    assume "list_ex (\<lambda>patentLine. patentLine = ''DCLM'' @ CRLF) (split CRLF s)"
    then have "''DCLM'' @ CRLF \<in> set (split CRLF s)" by (auto simp: list_ex_iff)
    then have "\<not> prefix CRLF (drop 4 (''DCLM'' @ CRLF))"
      by (intro split_no_sep) (simp_all add: CRLF_def)
    then show False by simp
  qed
  then show ?thesis by (simp add: pftapsType_def)
qed

lemma pftapsClaims_serialised:
  "\<exists>s. patentClaims (toSchema (pftapsProcessedPatentData f section)) = Str s \<and> s \<noteq> []"
  by (cases "assembleClaims (pftapsClaimLines section)")
     (simp_all add: pftapsProcessedPatentData_fields toSchema_def orNull_def pftapsClaims_def)

text \<open>
  Both XML converters run the parser over the sections in order;
  the matches of a bulk file lie in it one after the other, and the pieces of a
  split, joined by the separator, give the string back.
\<close>

lemma mapM_list_all2: "mapM f xs = Inr ys \<Longrightarrow> list_all2 (\<lambda>x y. f x = Inr y) xs ys"
  by (induction xs arbitrary: ys) (auto split: sum.splits)

lemma jsMatch_Some: "jsMatch tag s = Some secs \<Longrightarrow> secs = matchAll tag s"
  by (auto simp: jsMatch_def split: list.splits)

lemma matchAll_first:
  "matchAll tag xml = m # ms \<Longrightarrow> \<exists>before after. xml = before @ m @ after \<and> ms = matchAll tag after"
proof (induction tag xml rule: matchAll.induct)
  case (1 tag)
  then show ?case by simp
next
  case (2 tag c cs)
  show ?case
  proof (cases "matchAt tag (c # cs)")
    case None
    with "2.prems" have "matchAll tag cs = m # ms" by simp
    with "2.IH"(1) None obtain before after where "cs = before @ m @ after" "ms = matchAll tag after"
      by blast
    then have "c # cs = (c # before) @ m @ after \<and> ms = matchAll tag after" by simp
    then show ?thesis by blast
  next
    case (Some n)
    with "2.prems" have "m = take n (c # cs)" "ms = matchAll tag (drop n (c # cs))" by simp_all
    then have "c # cs = [] @ m @ drop n (c # cs) \<and> ms = matchAll tag (drop n (c # cs))" by simp
    then show ?thesis by blast
  qed
qed

lemma splitFrom_not_Nil: "splitFrom sep acc s \<noteq> []"
  by (induction sep acc s rule: splitFrom.induct) simp_all

lemma joinWith_Cons: "ys \<noteq> [] \<Longrightarrow> joinWith sep (x # ys) = x @ sep @ joinWith sep ys"
  by (cases ys) simp_all

lemma joinWith_splitFrom: "sep \<noteq> [] \<Longrightarrow> joinWith sep (splitFrom sep acc s) = acc @ s"
proof (induction sep acc s rule: splitFrom.induct)
  case (1 sep acc)
  show ?case by simp
next
  case (2 sep acc c cs)
  show ?case
  proof (cases "prefix sep (c # cs)")
    case True
    then have "sep @ drop (length sep) (c # cs) = c # cs"
      by (auto simp: prefix_def)
    with True "2.IH"(1) "2.prems" show ?thesis
      by (simp add: joinWith_Cons splitFrom_not_Nil del: drop_Suc_Cons)
  next
    case False
    with "2.IH"(2) "2.prems" show ?thesis by simp
  qed
qed

lemma convertV4_result:
  "convertUsptoVersion4XmlDataToJs parse xml = Inr out \<Longrightarrow>
   \<exists>trees. mapM parse (matchAll ''us-patent-grant'' xml) = Inr trees
     \<and> out = map (\<lambda>tree. toSchema (v4ProcessedPatentData tree)) trees"
  by (auto simp: convertUsptoVersion4XmlDataToJs_def v4Loop_mapM dest!: jsMatch_Some
      split: option.splits sum.splits)

lemma convertV2_result:
  "convertUsptoVersion2XmlDataToJs parse xml f = Inr out \<Longrightarrow>
   \<exists>trees. mapM parse (matchAll ''PATDOC'' xml) = Inr trees
     \<and> out = map (\<lambda>tree. toSchema (v2ProcessedPatentData f tree)) trees"
  by (auto simp: convertUsptoVersion2XmlDataToJs_def v2Loop_mapM dest!: jsMatch_Some
      split: option.splits sum.splits)

lemma list_all2_parsed:
  "mapM parse secs = Inr trees \<Longrightarrow>
   list_all2 (\<lambda>s r. \<exists>tree. parse s = Inr tree \<and> r = g tree) secs (map g trees)"
  by (drule mapM_list_all2) (auto simp: list_all2_map2 elim: list_all2_mono)

text \<open>The definitions to unfold when a converter runs on a given input.\<close>

lemmas eval_simps =
  Let_def CRLF_def split_def isSpace_def isDigit_def trim_def claimsMarker_def upperAscii_def
  jsMatch_def matchAt_def tryAssign_def emptyData_def orNull_def toSchema_def everyNull_def
  objectValues_def quoteJSON_def quoteChar_def hexDigit_def
  isNumLine_def isStmLine_def stripParagraph_def assembleClaims_def pftapsClaimLines_def
  pftapsClaims_def pftapsField_def pftapsType_def pftapsApplicationNumber_def
  pftapsDateProduced_def pftapsDatePublished_def pftapsInventionTitle_def pftapsInventionId_def
  pftapsProcessedPatentData_def pftapsSections_def convertUsptoPftapsDataToJs_def
  v4ClaimText_def v4Claims_def v4ApplicationNumber_def v4Type_def v4Language_def v4Country_def
  v4DateProduced_def v4DatePublished_def v4DtdVersion_def v4FileName_def v4PatentStatus_def
  v4InventionTitle_def v4InventionId_def v4ProcessedPatentData_def
  convertUsptoVersion4XmlDataToJs_def
  v2ClaimText_def v2Claims_def v2ApplicationNumber_def v2Country_def v2DateProduced_def
  v2DatePublished_def v2DtdVersion_def v2PatentStatus_def v2InventionTitle_def
  v2InventionId_def v2ProcessedPatentData_def convertUsptoVersion2XmlDataToJs_def

section \<open>Properties of the converters\<close>

text \<open>
  C1. On the empty bulk file the two XML converters do not return the empty list:
  \<^verbatim>\<open>match\<close> finds no section and returns \<^verbatim>\<open>null\<close>, and the loop over \<^verbatim>\<open>null\<close> throws
  a TypeError, whatever the parser. The same happens on a file whose only section
  is not closed, and on every file in which nothing matches. The legacy
  converter returns the empty list on the empty file.
\<close>

theorem empty_blob_results:
  "convertUsptoVersion4XmlDataToJs parseString [] = Inl TypeError
   \<and> convertUsptoVersion2XmlDataToJs parseString [] xmlFileName = Inl TypeError
   \<and> convertUsptoVersion4XmlDataToJs parseString ''<us-patent-grant id=1>'' = Inl TypeError
   \<and> convertUsptoPftapsDataToJs [] pftapsFileName = Inr []
   \<and> convertUsptoVersion4XmlDataToJs parseString xmlData =
       (if matchAll ''us-patent-grant'' xmlData = [] then Inl TypeError
        else v4Loop parseString (matchAll ''us-patent-grant'' xmlData) [])
   \<and> convertUsptoVersion2XmlDataToJs parseString xmlData xmlFileName =
       (if matchAll ''PATDOC'' xmlData = [] then Inl TypeError
        else v2Loop parseString xmlFileName (matchAll ''PATDOC'' xmlData) [])"
proof -
  have empty: "convertUsptoVersion4XmlDataToJs parseString [] = Inl TypeError
     \<and> convertUsptoVersion2XmlDataToJs parseString [] xmlFileName = Inl TypeError
     \<and> convertUsptoVersion4XmlDataToJs parseString ''<us-patent-grant id=1>'' = Inl TypeError
     \<and> convertUsptoPftapsDataToJs [] pftapsFileName = Inr []"
    by (simp add: eval_simps)
  have v4: "convertUsptoVersion4XmlDataToJs parseString xmlData =
       (if matchAll ''us-patent-grant'' xmlData = [] then Inl TypeError
        else v4Loop parseString (matchAll ''us-patent-grant'' xmlData) [])"
    by (simp add: convertUsptoVersion4XmlDataToJs_def jsMatch_def split: list.splits)
  have v2: "convertUsptoVersion2XmlDataToJs parseString xmlData xmlFileName =
       (if matchAll ''PATDOC'' xmlData = [] then Inl TypeError
        else v2Loop parseString xmlFileName (matchAll ''PATDOC'' xmlData) [])"
    by (simp add: convertUsptoVersion2XmlDataToJs_def jsMatch_def split: list.splits)
  from empty v4 v2 show ?thesis by blast
qed

text \<open>
  C2. A candidate whose twelve fields are all \<^verbatim>\<open>null\<close> is emitted. The older XML
  converter tests the record after the claims are serialised, and the
  serialisation of \<^verbatim>\<open>null\<close> is the string \<^verbatim>\<open>null\<close>: the test fails for every
  record, so no record is ever dropped. The current XML converter has no test.
  Here on a section with an empty root element, for which every lookup throws.
\<close>

theorem all_null_candidate_is_emitted:
  "everyNull (v2ProcessedPatentData Null (Obj [(''PATDOC'', Str [])]))
   \<and> convertUsptoVersion2XmlDataToJs (\<lambda>s. Inr (Obj [(''PATDOC'', Str [])]))
        ''<PATDOC ></PATDOC>'' Null =
      Inr [\<lparr>applicationNumber = Null, type = Null, language = Null, country = Null,
            dateProduced = Null, datePublished = Null, dtdVersion = Null, fileName = Null,
            patentStatus = Null, patentClaims = Str ''null'', inventionTitle = Null,
            inventionId = Null\<rparr>]
   \<and> everyNull (v4ProcessedPatentData (Obj [(''us-patent-grant'', Str [])]))
   \<and> convertUsptoVersion4XmlDataToJs (\<lambda>s. Inr (Obj [(''us-patent-grant'', Str [])]))
        ''<us-patent-grant ></us-patent-grant>'' =
      Inr [\<lparr>applicationNumber = Null, type = Null, language = Null, country = Null,
            dateProduced = Null, datePublished = Null, dtdVersion = Null, fileName = Null,
            patentStatus = Null, patentClaims = Str ''null'', inventionTitle = Null,
            inventionId = Null\<rparr>]
   \<and> \<not> everyNull (toSchema processedPatentData)"
proof -
  have a: "everyNull (v2ProcessedPatentData Null (Obj [(''PATDOC'', Str [])]))"
    by (simp add: eval_simps)
  have b: "convertUsptoVersion2XmlDataToJs (\<lambda>s. Inr (Obj [(''PATDOC'', Str [])]))
        ''<PATDOC ></PATDOC>'' Null =
      Inr [\<lparr>applicationNumber = Null, type = Null, language = Null, country = Null,
            dateProduced = Null, datePublished = Null, dtdVersion = Null, fileName = Null,
            patentStatus = Null, patentClaims = Str ''null'', inventionTitle = Null,
            inventionId = Null\<rparr>]"
    by (simp add: eval_simps)
  have c: "everyNull (v4ProcessedPatentData (Obj [(''us-patent-grant'', Str [])]))"
    by (simp add: eval_simps)
  have d: "convertUsptoVersion4XmlDataToJs (\<lambda>s. Inr (Obj [(''us-patent-grant'', Str [])]))
        ''<us-patent-grant ></us-patent-grant>'' =
      Inr [\<lparr>applicationNumber = Null, type = Null, language = Null, country = Null,
            dateProduced = Null, datePublished = Null, dtdVersion = Null, fileName = Null,
            patentStatus = Null, patentClaims = Str ''null'', inventionTitle = Null,
            inventionId = Null\<rparr>]"
    by (simp add: eval_simps)
  from a b c d toSchema_not_everyNull show ?thesis by simp
qed

text \<open>
  C3. The text accumulated after the last claim-number line is never pushed: in a
  section of more than one line, the lines after the last claim-number line
  leave the result as it was before them. A section with two claim-number lines,
  each followed by a line of text, yields one claim, the first.
\<close>

theorem last_claim_is_not_flushed:
  "(length (ls @ ts) \<noteq> 1 \<and> (\<forall>l \<in> set ts. \<not> isNumLine l) \<longrightarrow>
      assembleClaims (ls @ ts) =
        (case claimLoop (length (ls @ ts)) ls ([], ''1.'', []) of
           Inl e \<Rightarrow> Inl e
         | Inr (claimData, claimNumber, accumulated) \<Rightarrow> Inr (map trim claimData)))
   \<and> assembleClaims [''NUM  1.'', ''PA1  First claim.'', ''NUM  2.'', ''PA1  Second claim.'']
       = Inr [''First claim.'']
   \<and> pftapsClaims (''CLMS'' @ CRLF @ ''NUM  1.'' @ CRLF @ ''PA1  First claim.'' @ CRLF
         @ ''NUM  2.'' @ CRLF @ ''PA1  Second claim.'' @ CRLF)
       = Inr (Arr [Str ''First claim.''])"
proof -
  have general: "assembleClaims (ls @ ts) =
        (case claimLoop (length (ls @ ts)) ls ([], ''1.'', []) of
           Inl e \<Rightarrow> Inl e
         | Inr (claimData, claimNumber, accumulated) \<Rightarrow> Inr (map trim claimData))"
    if n: "length (ls @ ts) \<noteq> 1" and ts: "\<forall>l \<in> set ts. \<not> isNumLine l"
  proof (cases "claimLoop (length (ls @ ts)) ls ([], ''1.'', [])")
    case (Inl e)
    then show ?thesis
      by (simp add: assembleClaims_def claimLoop_append del: length_append)
  next
    case (Inr st)
    obtain cd num acc where st: "st = (cd, num, acc)" by (cases st)
    from claimLoop_text_only [OF n ts, of cd num acc]
    obtain acc' where "claimLoop (length (ls @ ts)) ts (cd, num, acc) = Inr (cd, num, acc')" ..
    with Inr st show ?thesis
      by (simp add: assembleClaims_def claimLoop_append del: length_append)
  qed
  have c1: "assembleClaims [''NUM  1.'', ''PA1  First claim.'', ''NUM  2.'', ''PA1  Second claim.'']
       = Inr [''First claim.'']"
    by (simp add: eval_simps)
  have c2: "pftapsClaims (''CLMS'' @ CRLF @ ''NUM  1.'' @ CRLF @ ''PA1  First claim.'' @ CRLF
         @ ''NUM  2.'' @ CRLF @ ''PA1  Second claim.'' @ CRLF)
       = Inr (Arr [Str ''First claim.''])"
    by (simp add: eval_simps)
  from general c1 c2 show ?thesis by blast
qed

theorem last_claim_is_not_flushed_witness:
  "length ([''NUM  1.'', ''PA1  First claim.'', ''NUM  2.''] @ [''PA1  Second claim.'']) \<noteq> 1
   \<and> list_all (\<lambda>l. \<not> isNumLine l) [''PA1  Second claim.'']
   \<and> claimLoop (length ([''NUM  1.'', ''PA1  First claim.'', ''NUM  2.''] @ [''PA1  Second claim.'']))
        [''NUM  1.'', ''PA1  First claim.'', ''NUM  2.''] ([], ''1.'', [])
       = Inr ([''First claim. ''], ''2.'', [])
   \<and> assembleClaims ([''NUM  1.'', ''PA1  First claim.'', ''NUM  2.''] @ [''PA1  Second claim.''])
       = Inr [''First claim.'']"
proof -
  let ?ls = "[''NUM  1.'', ''PA1  First claim.'', ''NUM  2.'']"
  let ?ts = "[''PA1  Second claim.'']"
  have h1: "length (?ls @ ?ts) \<noteq> 1"
    by simp
  have h2: "\<forall>l \<in> set ?ts. \<not> isNumLine l"
    by (simp add: isNumLine_def)
  have h2': "list_all (\<lambda>l. \<not> isNumLine l) ?ts"
    by (simp add: isNumLine_def)
  have h3: "claimLoop (length (?ls @ ?ts)) ?ls ([], ''1.'', []) = Inr ([''First claim. ''], ''2.'', [])"
    by (simp add: eval_simps)
  from last_claim_is_not_flushed [where ls = ?ls and ts = ?ts] h1 h2
  have "assembleClaims (?ls @ ?ts) =
        (case claimLoop (length (?ls @ ?ts)) ?ls ([], ''1.'', []) of
           Inl e \<Rightarrow> Inl e
         | Inr (claimData, claimNumber, accumulated) \<Rightarrow> Inr (map trim claimData))"
    by blast
  then have r: "assembleClaims (?ls @ ?ts) = Inr [''First claim.'']"
    unfolding h3 by (simp add: trim_def isSpace_def)
  from h1 h2' h3 r show ?thesis by blast
qed

text \<open>
  C4. The legacy converter on the scenario of the specification: one record, with
  the application number, the date and the title as stated, and an empty list
  of claims, serialised as \<^verbatim>\<open>[]\<close>: the text of the only claim is accumulated and
  never pushed.
\<close>

theorem widget_scenario_result:
  "convertUsptoPftapsDataToJs
     (''PATN'' @ CRLF @ ''PNO  12345'' @ CRLF @ ''APD  19900101'' @ CRLF @ ''TTL  A Widget'' @ CRLF
      @ ''CLMS'' @ CRLF @ ''NUM  1.'' @ CRLF @ ''PA1  A widget comprising X.'' @ CRLF) Null =
   Inr [\<lparr>applicationNumber = Str ''12345'', type = Str ''utility'', language = Null,
         country = Null, dateProduced = Str ''19900101'', datePublished = Null,
         dtdVersion = Null, fileName = Null, patentStatus = Null, patentClaims = Str ''[]'',
         inventionTitle = Str ''A Widget'', inventionId = Null\<rparr>]
   \<and> pftapsClaims (''PNO  12345'' @ CRLF @ ''APD  19900101'' @ CRLF @ ''TTL  A Widget'' @ CRLF
      @ ''CLMS'' @ CRLF @ ''NUM  1.'' @ CRLF @ ''PA1  A widget comprising X.'' @ CRLF) = Inr (Arr [])"
  by (simp add: eval_simps)

text \<open>
  C5. The legacy converter never yields the record type \<^verbatim>\<open>design\<close>. The lines it
  tests come from a split on the line terminator, so none of them contains the
  terminator, and the pattern of the test asks for the marker \<^verbatim>\<open>DCLM\<close> followed
  by the terminator: no line matches, and the type of every section is
  \<^verbatim>\<open>utility\<close>, also of a section that has the line \<^verbatim>\<open>DCLM\<close>.
\<close>

theorem pftapsType_always_utility:
  "pftapsType section = Inr (Str ''utility'')
   \<and> type (pftapsProcessedPatentData pftapsFileName section) = Str ''utility''
   \<and> pftapsType (''PNO  D0123456'' @ CRLF @ ''DCLM'' @ CRLF @ ''PAL  The ornamental design'' @ CRLF)
       = Inr (Str ''utility'')"
  by (simp add: pftapsType_utility pftapsProcessedPatentData_fields orNull_def)

text \<open>
  C6, the claim as stated fails: a line made of the prefix alone gives a field that
  is present and empty. Here the application number of the only record.
\<close>

theorem empty_field_counterexample:
  "convertUsptoPftapsDataToJs (''PATN'' @ CRLF @ ''PNO  '' @ CRLF) Null =
   Inr [\<lparr>applicationNumber = Str [], type = Str ''utility'', language = Null, country = Null,
         dateProduced = Null, datePublished = Null, dtdVersion = Null, fileName = Null,
         patentStatus = Null, patentClaims = Str ''[\"PNO\"]'', inventionTitle = Null,
         inventionId = Null\<rparr>]"
  by (simp add: eval_simps)

text \<open>
  C6, amended. A field of a pushed record is present and empty only when its
  source is empty. In the legacy dialect each of the five fields read by line
  prefix holds \<^verbatim>\<open>null\<close> when no line starts with its prefix, and otherwise the
  text after the prefix on the first such line, up to the next occurrence of the
  prefix: it is the empty string exactly when nothing follows the prefix. The
  type is \<^verbatim>\<open>design\<close> or \<^verbatim>\<open>utility\<close>, the language, the country, the version and
  the status are \<^verbatim>\<open>null\<close>, and the file name is the argument. In the XML dialects
  each field read from the parsed tree is the empty string exactly when its
  lookup yields the empty string; in the older one the type and the language
  are \<^verbatim>\<open>null\<close> and the file name is the argument. The serialised claims are a
  non-empty string in the three dialects, and every record a converter returns
  is the record of a section or of a parsed tree.
\<close>

theorem fields_empty_only_from_source:
  "applicationNumber (pftapsSchemaData pftapsFileName sec) = firstLineValue ''PNO  '' sec
   \<and> dateProduced (pftapsSchemaData pftapsFileName sec) = firstLineValue ''APD  '' sec
   \<and> datePublished (pftapsSchemaData pftapsFileName sec) = firstLineValue ''ISD  '' sec
   \<and> inventionTitle (pftapsSchemaData pftapsFileName sec) = firstLineValue ''TTL  '' sec
   \<and> inventionId (pftapsSchemaData pftapsFileName sec) = firstLineValue ''ISD  '' sec
   \<and> (applicationNumber (pftapsSchemaData pftapsFileName sec) = Str []) = nothingFollows ''PNO  '' sec
   \<and> (dateProduced (pftapsSchemaData pftapsFileName sec) = Str []) = nothingFollows ''APD  '' sec
   \<and> (datePublished (pftapsSchemaData pftapsFileName sec) = Str []) = nothingFollows ''ISD  '' sec
   \<and> (inventionTitle (pftapsSchemaData pftapsFileName sec) = Str []) = nothingFollows ''TTL  '' sec
   \<and> (inventionId (pftapsSchemaData pftapsFileName sec) = Str []) = nothingFollows ''ISD  '' sec
   \<and> (type (pftapsSchemaData pftapsFileName sec) = Str ''design''
        \<or> type (pftapsSchemaData pftapsFileName sec) = Str ''utility'')
   \<and> language (pftapsSchemaData pftapsFileName sec) = Null
   \<and> country (pftapsSchemaData pftapsFileName sec) = Null
   \<and> dtdVersion (pftapsSchemaData pftapsFileName sec) = Null
   \<and> patentStatus (pftapsSchemaData pftapsFileName sec) = Null
   \<and> fileName (pftapsSchemaData pftapsFileName sec) = pftapsFileName
   \<and> (\<exists>c. patentClaims (pftapsSchemaData pftapsFileName sec) = Str c \<and> c \<noteq> [])
   \<and> convertUsptoPftapsDataToJs pftapsData pftapsFileName =
       Inr (map (pftapsSchemaData pftapsFileName) (drop 1 (split (''PATN'' @ CRLF) pftapsData)))
   \<and> (applicationNumber (v4SchemaData tree) = Str []) = (v4ApplicationNumber tree = Inr (Str []))
   \<and> (type (v4SchemaData tree) = Str []) = (v4Type tree = Inr (Str []))
   \<and> (language (v4SchemaData tree) = Str []) = (v4Language tree = Inr (Str []))
   \<and> (country (v4SchemaData tree) = Str []) = (v4Country tree = Inr (Str []))
   \<and> (dateProduced (v4SchemaData tree) = Str []) = (v4DateProduced tree = Inr (Str []))
   \<and> (datePublished (v4SchemaData tree) = Str []) = (v4DatePublished tree = Inr (Str []))
   \<and> (dtdVersion (v4SchemaData tree) = Str []) = (v4DtdVersion tree = Inr (Str []))
   \<and> (fileName (v4SchemaData tree) = Str []) = (v4FileName tree = Inr (Str []))
   \<and> (patentStatus (v4SchemaData tree) = Str []) = (v4PatentStatus tree = Inr (Str []))
   \<and> (inventionTitle (v4SchemaData tree) = Str []) = (v4InventionTitle tree = Inr (Str []))
   \<and> (inventionId (v4SchemaData tree) = Str []) = (v4InventionId tree = Inr (Str []))
   \<and> (\<exists>c. patentClaims (v4SchemaData tree) = Str c \<and> c \<noteq> [])
   \<and> (convertUsptoVersion4XmlDataToJs parseString xmlData = Inr out \<longrightarrow>
        (\<forall>r \<in> set out. \<exists>t. r = v4SchemaData t))
   \<and> (applicationNumber (v2SchemaData xmlFileName tree) = Str []) = (v2ApplicationNumber tree = Inr (Str []))
   \<and> type (v2SchemaData xmlFileName tree) = Null
   \<and> language (v2SchemaData xmlFileName tree) = Null
   \<and> (country (v2SchemaData xmlFileName tree) = Str []) = (v2Country tree = Inr (Str []))
   \<and> (dateProduced (v2SchemaData xmlFileName tree) = Str []) = (v2DateProduced tree = Inr (Str []))
   \<and> (datePublished (v2SchemaData xmlFileName tree) = Str []) = (v2DatePublished tree = Inr (Str []))
   \<and> (dtdVersion (v2SchemaData xmlFileName tree) = Str []) = (v2DtdVersion tree = Inr (Str []))
   \<and> fileName (v2SchemaData xmlFileName tree) = xmlFileName
   \<and> (patentStatus (v2SchemaData xmlFileName tree) = Str []) = (v2PatentStatus tree = Inr (Str []))
   \<and> (inventionTitle (v2SchemaData xmlFileName tree) = Str []) = (v2InventionTitle tree = Inr (Str []))
   \<and> (inventionId (v2SchemaData xmlFileName tree) = Str []) = (v2InventionId tree = Inr (Str []))
   \<and> (\<exists>c. patentClaims (v2SchemaData xmlFileName tree) = Str c \<and> c \<noteq> [])
   \<and> (convertUsptoVersion2XmlDataToJs parseString xmlData xmlFileName = Inr out2 \<longrightarrow>
        (\<forall>r \<in> set out2. \<exists>t. r = v2SchemaData xmlFileName t))"
proof -
  have pf: "applicationNumber (pftapsSchemaData pftapsFileName sec) = firstLineValue ''PNO  '' sec"
    "dateProduced (pftapsSchemaData pftapsFileName sec) = firstLineValue ''APD  '' sec"
    "datePublished (pftapsSchemaData pftapsFileName sec) = firstLineValue ''ISD  '' sec"
    "inventionTitle (pftapsSchemaData pftapsFileName sec) = firstLineValue ''TTL  '' sec"
    "inventionId (pftapsSchemaData pftapsFileName sec) = firstLineValue ''ISD  '' sec"
    by (simp_all add: pftapsProcessedPatentData_fields toSchema_def pftapsField_value
          pftapsApplicationNumber_def pftapsDateProduced_def pftapsDatePublished_def
          pftapsInventionTitle_def pftapsInventionId_def)
  have pfe: "(applicationNumber (pftapsSchemaData pftapsFileName sec) = Str []) = nothingFollows ''PNO  '' sec"
    "(dateProduced (pftapsSchemaData pftapsFileName sec) = Str []) = nothingFollows ''APD  '' sec"
    "(datePublished (pftapsSchemaData pftapsFileName sec) = Str []) = nothingFollows ''ISD  '' sec"
    "(inventionTitle (pftapsSchemaData pftapsFileName sec) = Str []) = nothingFollows ''TTL  '' sec"
    "(inventionId (pftapsSchemaData pftapsFileName sec) = Str []) = nothingFollows ''ISD  '' sec"
    by (simp_all only: pf firstLineValue_empty)
  have pfo: "type (pftapsSchemaData pftapsFileName sec) = Str ''design''
        \<or> type (pftapsSchemaData pftapsFileName sec) = Str ''utility''"
    "language (pftapsSchemaData pftapsFileName sec) = Null"
    "country (pftapsSchemaData pftapsFileName sec) = Null"
    "dtdVersion (pftapsSchemaData pftapsFileName sec) = Null"
    "patentStatus (pftapsSchemaData pftapsFileName sec) = Null"
    "fileName (pftapsSchemaData pftapsFileName sec) = pftapsFileName"
    by (simp_all add: pftapsProcessedPatentData_fields toSchema_def pftapsType_def orNull_def)
  have v4: "(applicationNumber (v4SchemaData tree) = Str []) = (v4ApplicationNumber tree = Inr (Str []))"
    "(type (v4SchemaData tree) = Str []) = (v4Type tree = Inr (Str []))"
    "(language (v4SchemaData tree) = Str []) = (v4Language tree = Inr (Str []))"
    "(country (v4SchemaData tree) = Str []) = (v4Country tree = Inr (Str []))"
    "(dateProduced (v4SchemaData tree) = Str []) = (v4DateProduced tree = Inr (Str []))"
    "(datePublished (v4SchemaData tree) = Str []) = (v4DatePublished tree = Inr (Str []))"
    "(dtdVersion (v4SchemaData tree) = Str []) = (v4DtdVersion tree = Inr (Str []))"
    "(fileName (v4SchemaData tree) = Str []) = (v4FileName tree = Inr (Str []))"
    "(patentStatus (v4SchemaData tree) = Str []) = (v4PatentStatus tree = Inr (Str []))"
    "(inventionTitle (v4SchemaData tree) = Str []) = (v4InventionTitle tree = Inr (Str []))"
    "(inventionId (v4SchemaData tree) = Str []) = (v4InventionId tree = Inr (Str []))"
    by (simp_all add: v4ProcessedPatentData_fields toSchema_def orNull_empty)
  have v2: "(applicationNumber (v2SchemaData xmlFileName tree) = Str []) = (v2ApplicationNumber tree = Inr (Str []))"
    "type (v2SchemaData xmlFileName tree) = Null"
    "language (v2SchemaData xmlFileName tree) = Null"
    "(country (v2SchemaData xmlFileName tree) = Str []) = (v2Country tree = Inr (Str []))"
    "(dateProduced (v2SchemaData xmlFileName tree) = Str []) = (v2DateProduced tree = Inr (Str []))"
    "(datePublished (v2SchemaData xmlFileName tree) = Str []) = (v2DatePublished tree = Inr (Str []))"
    "(dtdVersion (v2SchemaData xmlFileName tree) = Str []) = (v2DtdVersion tree = Inr (Str []))"
    "fileName (v2SchemaData xmlFileName tree) = xmlFileName"
    "(patentStatus (v2SchemaData xmlFileName tree) = Str []) = (v2PatentStatus tree = Inr (Str []))"
    "(inventionTitle (v2SchemaData xmlFileName tree) = Str []) = (v2InventionTitle tree = Inr (Str []))"
    "(inventionId (v2SchemaData xmlFileName tree) = Str []) = (v2InventionId tree = Inr (Str []))"
    by (simp_all add: v2ProcessedPatentData_fields toSchema_def orNull_empty)
  have c4: "\<forall>r \<in> set out. \<exists>t. r = v4SchemaData t"
    if "convertUsptoVersion4XmlDataToJs parseString xmlData = Inr out"
    using that by (auto simp: convertV4_cases split: option.splits sum.splits)
  have c2: "\<forall>r \<in> set out2. \<exists>t. r = v2SchemaData xmlFileName t"
    if "convertUsptoVersion2XmlDataToJs parseString xmlData xmlFileName = Inr out2"
    using that by (auto simp: convertV2_cases split: option.splits sum.splits)
  show ?thesis
    apply (intro conjI impI)
    apply (rule pf pfe pfo v4 v2 pftapsClaims_serialised xmlClaims_serialised convertPftaps_map
                | erule c4 c2)+
    done
qed


theorem fields_empty_only_from_source_witness:
  "nothingFollows ''PNO  '' (''PNO  '' @ CRLF @ ''TTL  A TTL  B TTL  C'' @ CRLF)
   \<and> applicationNumber (pftapsSchemaData Null (''PNO  '' @ CRLF @ ''TTL  A TTL  B TTL  C'' @ CRLF))
       = Str []
   \<and> inventionTitle (pftapsSchemaData Null (''PNO  '' @ CRLF @ ''TTL  A TTL  B TTL  C'' @ CRLF))
       = Str ''A ''
   \<and> dateProduced (pftapsSchemaData Null (''PNO  '' @ CRLF @ ''TTL  A TTL  B TTL  C'' @ CRLF))
       = Null
   \<and> v4Language (Obj [(''us-patent-grant'', Obj [(''$'', Obj [(''lang'', Str [])])])])
       = Inr (Str [])
   \<and> language (v4SchemaData (Obj [(''us-patent-grant'', Obj [(''$'', Obj [(''lang'', Str [])])])]))
       = Str []
   \<and> convertUsptoVersion4XmlDataToJs
        (\<lambda>s. Inr (Obj [(''us-patent-grant'', Obj [(''$'', Obj [(''lang'', Str [])])])]))
        ''<us-patent-grant lang=></us-patent-grant>''
       = Inr [\<lparr>applicationNumber = Null, type = Null, language = Str [], country = Undefined,
               dateProduced = Undefined, datePublished = Undefined, dtdVersion = Undefined,
               fileName = Undefined, patentStatus = Undefined, patentClaims = Str ''null'',
               inventionTitle = Null, inventionId = Null\<rparr>]
   \<and> (\<exists>t. \<lparr>applicationNumber = Null, type = Null, language = Str [], country = Undefined,
               dateProduced = Undefined, datePublished = Undefined, dtdVersion = Undefined,
               fileName = Undefined, patentStatus = Undefined, patentClaims = Str ''null'',
               inventionTitle = Null, inventionId = Null\<rparr> = v4SchemaData t)
   \<and> v2DtdVersion (Obj [(''PATDOC'', Obj [(''$'', Obj [(''DTD'', Str [])])])]) = Inr (Str [])
   \<and> dtdVersion (v2SchemaData Null (Obj [(''PATDOC'', Obj [(''$'', Obj [(''DTD'', Str [])])])]))
       = Str []
   \<and> convertUsptoVersion2XmlDataToJs
        (\<lambda>s. Inr (Obj [(''PATDOC'', Obj [(''$'', Obj [(''DTD'', Str [])])])]))
        ''<PATDOC DTD=></PATDOC>'' Null
       = Inr [\<lparr>applicationNumber = Null, type = Null, language = Null, country = Null,
               dateProduced = Null, datePublished = Null, dtdVersion = Str [],
               fileName = Null, patentStatus = Undefined, patentClaims = Str ''null'',
               inventionTitle = Null, inventionId = Null\<rparr>]
   \<and> (\<exists>t. \<lparr>applicationNumber = Null, type = Null, language = Null, country = Null,
               dateProduced = Null, datePublished = Null, dtdVersion = Str [],
               fileName = Null, patentStatus = Undefined, patentClaims = Str ''null'',
               inventionTitle = Null, inventionId = Null\<rparr> = v2SchemaData Null t)"
proof -
  let ?s = "''PNO  '' @ CRLF @ ''TTL  A TTL  B TTL  C'' @ CRLF"
  let ?T4 = "Obj [(''us-patent-grant'', Obj [(''$'', Obj [(''lang'', Str [])])])]"
  let ?P4 = "\<lambda>s::string. (Inr ?T4 :: error + jsval)"
  let ?X4 = "''<us-patent-grant lang=></us-patent-grant>''"
  let ?R4 = "\<lparr>applicationNumber = Null, type = Null, language = Str [], country = Undefined,
               dateProduced = Undefined, datePublished = Undefined, dtdVersion = Undefined,
               fileName = Undefined, patentStatus = Undefined, patentClaims = Str ''null'',
               inventionTitle = Null, inventionId = Null\<rparr>"
  let ?T2 = "Obj [(''PATDOC'', Obj [(''$'', Obj [(''DTD'', Str [])])])]"
  let ?P2 = "\<lambda>s::string. (Inr ?T2 :: error + jsval)"
  let ?X2 = "''<PATDOC DTD=></PATDOC>''"
  let ?R2 = "\<lparr>applicationNumber = Null, type = Null, language = Null, country = Null,
               dateProduced = Null, datePublished = Null, dtdVersion = Str [],
               fileName = Null, patentStatus = Undefined, patentClaims = Str ''null'',
               inventionTitle = Null, inventionId = Null\<rparr>"
  note th = fields_empty_only_from_source
              [where sec = ?s and pftapsFileName = Null and tree = ?T4 and parseString = ?P4
                 and xmlData = ?X4 and out = "[?R4]"]
  note th2 = fields_empty_only_from_source
              [where tree = ?T2 and parseString = ?P2 and xmlFileName = Null
                 and xmlData = ?X2 and ?out2.0 = "[?R2]"]
  note appEmpty = th [THEN conjunct2, THEN conjunct2, THEN conjunct2, THEN conjunct2, THEN conjunct2, THEN conjunct1]
  note titleValue = th [THEN conjunct2, THEN conjunct2, THEN conjunct2, THEN conjunct1]
  note dateValue = th [THEN conjunct2, THEN conjunct1]
  note langEmpty = th [THEN conjunct2, THEN conjunct2, THEN conjunct2, THEN conjunct2, THEN conjunct2, THEN conjunct2, THEN conjunct2, THEN conjunct2, THEN conjunct2, THEN conjunct2, THEN conjunct2, THEN conjunct2, THEN conjunct2, THEN conjunct2, THEN conjunct2, THEN conjunct2, THEN conjunct2, THEN conjunct2, THEN conjunct2, THEN conjunct2, THEN conjunct1]
  note v4Emitted = th [THEN conjunct2, THEN conjunct2, THEN conjunct2, THEN conjunct2, THEN conjunct2, THEN conjunct2, THEN conjunct2, THEN conjunct2, THEN conjunct2, THEN conjunct2, THEN conjunct2, THEN conjunct2, THEN conjunct2, THEN conjunct2, THEN conjunct2, THEN conjunct2, THEN conjunct2, THEN conjunct2, THEN conjunct2, THEN conjunct2, THEN conjunct2, THEN conjunct2, THEN conjunct2, THEN conjunct2, THEN conjunct2, THEN conjunct2, THEN conjunct2, THEN conjunct2, THEN conjunct2, THEN conjunct2, THEN conjunct1]
  note dtdEmpty = th2 [THEN conjunct2, THEN conjunct2, THEN conjunct2, THEN conjunct2, THEN conjunct2, THEN conjunct2, THEN conjunct2, THEN conjunct2, THEN conjunct2, THEN conjunct2, THEN conjunct2, THEN conjunct2, THEN conjunct2, THEN conjunct2, THEN conjunct2, THEN conjunct2, THEN conjunct2, THEN conjunct2, THEN conjunct2, THEN conjunct2, THEN conjunct2, THEN conjunct2, THEN conjunct2, THEN conjunct2, THEN conjunct2, THEN conjunct2, THEN conjunct2, THEN conjunct2, THEN conjunct2, THEN conjunct2, THEN conjunct2, THEN conjunct2, THEN conjunct2, THEN conjunct2, THEN conjunct2, THEN conjunct2, THEN conjunct2, THEN conjunct1]
  note v2Emitted = th2 [THEN conjunct2, THEN conjunct2, THEN conjunct2, THEN conjunct2, THEN conjunct2, THEN conjunct2, THEN conjunct2, THEN conjunct2, THEN conjunct2, THEN conjunct2, THEN conjunct2, THEN conjunct2, THEN conjunct2, THEN conjunct2, THEN conjunct2, THEN conjunct2, THEN conjunct2, THEN conjunct2, THEN conjunct2, THEN conjunct2, THEN conjunct2, THEN conjunct2, THEN conjunct2, THEN conjunct2, THEN conjunct2, THEN conjunct2, THEN conjunct2, THEN conjunct2, THEN conjunct2, THEN conjunct2, THEN conjunct2, THEN conjunct2, THEN conjunct2, THEN conjunct2, THEN conjunct2, THEN conjunct2, THEN conjunct2, THEN conjunct2, THEN conjunct2, THEN conjunct2, THEN conjunct2, THEN conjunct2, THEN conjunct2]
  have n: "nothingFollows ''PNO  '' ?s"
    by (simp add: nothingFollows_def split_def CRLF_def)
  have a: "applicationNumber (pftapsSchemaData Null ?s) = Str []"
    unfolding appEmpty by (rule n)
  have t: "inventionTitle (pftapsSchemaData Null ?s) = Str ''A ''"
    unfolding titleValue by (simp add: firstLineValue_def split_def CRLF_def)
  have d: "dateProduced (pftapsSchemaData Null ?s) = Null"
    unfolding dateValue by (simp add: firstLineValue_def split_def CRLF_def)
  have l4: "v4Language ?T4 = Inr (Str [])"
    by (simp add: v4Language_def)
  have e4: "language (v4SchemaData ?T4) = Str []"
    unfolding langEmpty by (rule l4)
  have c4: "convertUsptoVersion4XmlDataToJs ?P4 ?X4 = Inr [?R4]"
    by (simp add: eval_simps)
  from v4Emitted [rule_format, OF c4, of ?R4] have x4: "\<exists>t. ?R4 = v4SchemaData t"
    by simp
  have l2: "v2DtdVersion ?T2 = Inr (Str [])"
    by (simp add: v2DtdVersion_def)
  have e2: "dtdVersion (v2SchemaData Null ?T2) = Str []"
    unfolding dtdEmpty by (rule l2)
  have c2: "convertUsptoVersion2XmlDataToJs ?P2 ?X2 Null = Inr [?R2]"
    by (simp add: eval_simps)
  from v2Emitted [rule_format, OF c2, of ?R2] have x2: "\<exists>t. ?R2 = v2SchemaData Null t"
    by simp
  from n a t d l4 e4 c4 x4 l2 e2 c2 x2 show ?thesis
    by (intro conjI)
qed

text \<open>
  C7. The record of a section holds, in each field, the value of that field's own
  lookup, or \<^verbatim>\<open>null\<close> when the lookup throws, in the three dialects: a lookup that
  fails leaves its own field absent, and no field depends on another lookup.
  Serialising the claims changes no other field. No lookup stops the pass: the
  legacy converter always returns the records of all its sections, and an XML
  converter returns the records of all the parsed sections unless \<^verbatim>\<open>match\<close> found
  nothing or the parser itself rejects a section.
\<close>

theorem field_failure_is_local:
  "v4ProcessedPatentData tree =
     \<lparr>applicationNumber = orNull (v4ApplicationNumber tree), type = orNull (v4Type tree),
      language = orNull (v4Language tree), country = orNull (v4Country tree),
      dateProduced = orNull (v4DateProduced tree), datePublished = orNull (v4DatePublished tree),
      dtdVersion = orNull (v4DtdVersion tree), fileName = orNull (v4FileName tree),
      patentStatus = orNull (v4PatentStatus tree), patentClaims = orNull (v4Claims tree),
      inventionTitle = orNull (v4InventionTitle tree), inventionId = orNull (v4InventionId tree)\<rparr>
   \<and> v2ProcessedPatentData xmlFileName tree =
     \<lparr>applicationNumber = orNull (v2ApplicationNumber tree), type = Null, language = Null,
      country = orNull (v2Country tree), dateProduced = orNull (v2DateProduced tree),
      datePublished = orNull (v2DatePublished tree), dtdVersion = orNull (v2DtdVersion tree),
      fileName = xmlFileName, patentStatus = orNull (v2PatentStatus tree),
      patentClaims = orNull (v2Claims tree), inventionTitle = orNull (v2InventionTitle tree),
      inventionId = orNull (v2InventionId tree)\<rparr>
   \<and> pftapsProcessedPatentData pftapsFileName sec =
     \<lparr>applicationNumber = orNull (pftapsApplicationNumber sec), type = orNull (pftapsType sec),
      language = Null, country = Null, dateProduced = orNull (pftapsDateProduced sec),
      datePublished = orNull (pftapsDatePublished sec), dtdVersion = Null,
      fileName = pftapsFileName, patentStatus = Null, patentClaims = orNull (pftapsClaims sec),
      inventionTitle = orNull (pftapsInventionTitle sec),
      inventionId = orNull (pftapsInventionId sec)\<rparr>
   \<and> list_all (\<lambda>(lookup, field). lookupFails lookup \<longrightarrow> absent field)
       [(v4ApplicationNumber tree, applicationNumber (v4ProcessedPatentData tree)),
        (v4Type tree, type (v4ProcessedPatentData tree)),
        (v4Language tree, language (v4ProcessedPatentData tree)),
        (v4Country tree, country (v4ProcessedPatentData tree)),
        (v4DateProduced tree, dateProduced (v4ProcessedPatentData tree)),
        (v4DatePublished tree, datePublished (v4ProcessedPatentData tree)),
        (v4DtdVersion tree, dtdVersion (v4ProcessedPatentData tree)),
        (v4FileName tree, fileName (v4ProcessedPatentData tree)),
        (v4PatentStatus tree, patentStatus (v4ProcessedPatentData tree)),
        (v4Claims tree, patentClaims (v4ProcessedPatentData tree)),
        (v4InventionTitle tree, inventionTitle (v4ProcessedPatentData tree)),
        (v4InventionId tree, inventionId (v4ProcessedPatentData tree))]
   \<and> list_all (\<lambda>(lookup, field). lookupFails lookup \<longrightarrow> absent field)
       [(v2ApplicationNumber tree, applicationNumber (v2ProcessedPatentData xmlFileName tree)),
        (v2Country tree, country (v2ProcessedPatentData xmlFileName tree)),
        (v2DateProduced tree, dateProduced (v2ProcessedPatentData xmlFileName tree)),
        (v2DatePublished tree, datePublished (v2ProcessedPatentData xmlFileName tree)),
        (v2DtdVersion tree, dtdVersion (v2ProcessedPatentData xmlFileName tree)),
        (v2PatentStatus tree, patentStatus (v2ProcessedPatentData xmlFileName tree)),
        (v2Claims tree, patentClaims (v2ProcessedPatentData xmlFileName tree)),
        (v2InventionTitle tree, inventionTitle (v2ProcessedPatentData xmlFileName tree)),
        (v2InventionId tree, inventionId (v2ProcessedPatentData xmlFileName tree))]
   \<and> list_all (\<lambda>(lookup, field). lookupFails lookup \<longrightarrow> absent field)
       [(pftapsApplicationNumber sec, applicationNumber (pftapsProcessedPatentData pftapsFileName sec)),
        (pftapsType sec, type (pftapsProcessedPatentData pftapsFileName sec)),
        (pftapsDateProduced sec, dateProduced (pftapsProcessedPatentData pftapsFileName sec)),
        (pftapsDatePublished sec, datePublished (pftapsProcessedPatentData pftapsFileName sec)),
        (pftapsClaims sec, patentClaims (pftapsProcessedPatentData pftapsFileName sec)),
        (pftapsInventionTitle sec, inventionTitle (pftapsProcessedPatentData pftapsFileName sec)),
        (pftapsInventionId sec, inventionId (pftapsProcessedPatentData pftapsFileName sec))]
   \<and> toSchema processedPatentData =
       processedPatentData\<lparr>patentClaims := patentClaims (toSchema processedPatentData)\<rparr>
   \<and> convertUsptoVersion4XmlDataToJs parseString xmlData =
       (case jsMatch ''us-patent-grant'' xmlData of
          None \<Rightarrow> Inl TypeError
        | Some patentXmlSections \<Rightarrow>
            (case mapM parseString patentXmlSections of
               Inl e \<Rightarrow> Inl e
             | Inr trees \<Rightarrow> Inr (map v4SchemaData trees)))
   \<and> convertUsptoVersion2XmlDataToJs parseString xmlData xmlFileName =
       (case jsMatch ''PATDOC'' xmlData of
          None \<Rightarrow> Inl TypeError
        | Some patentXmlSections \<Rightarrow>
            (case mapM parseString patentXmlSections of
               Inl e \<Rightarrow> Inl e
             | Inr trees \<Rightarrow> Inr (map (v2SchemaData xmlFileName) trees)))
   \<and> convertUsptoPftapsDataToJs pftapsData pftapsFileName =
       Inr (map (pftapsSchemaData pftapsFileName) (drop 1 (split (''PATN'' @ CRLF) pftapsData)))"
proof -
  have fails: "absent (orNull r)" if "lookupFails r" for r
    using that by (cases r) (simp_all add: lookupFails_def absent_def orNull_def)
  have l4: "list_all (\<lambda>(lookup, field). lookupFails lookup \<longrightarrow> absent field)
       [(v4ApplicationNumber tree, applicationNumber (v4ProcessedPatentData tree)),
        (v4Type tree, type (v4ProcessedPatentData tree)),
        (v4Language tree, language (v4ProcessedPatentData tree)),
        (v4Country tree, country (v4ProcessedPatentData tree)),
        (v4DateProduced tree, dateProduced (v4ProcessedPatentData tree)),
        (v4DatePublished tree, datePublished (v4ProcessedPatentData tree)),
        (v4DtdVersion tree, dtdVersion (v4ProcessedPatentData tree)),
        (v4FileName tree, fileName (v4ProcessedPatentData tree)),
        (v4PatentStatus tree, patentStatus (v4ProcessedPatentData tree)),
        (v4Claims tree, patentClaims (v4ProcessedPatentData tree)),
        (v4InventionTitle tree, inventionTitle (v4ProcessedPatentData tree)),
        (v4InventionId tree, inventionId (v4ProcessedPatentData tree))]"
    by (simp add: v4ProcessedPatentData_fields fails)
  have l2: "list_all (\<lambda>(lookup, field). lookupFails lookup \<longrightarrow> absent field)
       [(v2ApplicationNumber tree, applicationNumber (v2ProcessedPatentData xmlFileName tree)),
        (v2Country tree, country (v2ProcessedPatentData xmlFileName tree)),
        (v2DateProduced tree, dateProduced (v2ProcessedPatentData xmlFileName tree)),
        (v2DatePublished tree, datePublished (v2ProcessedPatentData xmlFileName tree)),
        (v2DtdVersion tree, dtdVersion (v2ProcessedPatentData xmlFileName tree)),
        (v2PatentStatus tree, patentStatus (v2ProcessedPatentData xmlFileName tree)),
        (v2Claims tree, patentClaims (v2ProcessedPatentData xmlFileName tree)),
        (v2InventionTitle tree, inventionTitle (v2ProcessedPatentData xmlFileName tree)),
        (v2InventionId tree, inventionId (v2ProcessedPatentData xmlFileName tree))]"
    by (simp add: v2ProcessedPatentData_fields fails)
  have lp: "list_all (\<lambda>(lookup, field). lookupFails lookup \<longrightarrow> absent field)
       [(pftapsApplicationNumber sec, applicationNumber (pftapsProcessedPatentData pftapsFileName sec)),
        (pftapsType sec, type (pftapsProcessedPatentData pftapsFileName sec)),
        (pftapsDateProduced sec, dateProduced (pftapsProcessedPatentData pftapsFileName sec)),
        (pftapsDatePublished sec, datePublished (pftapsProcessedPatentData pftapsFileName sec)),
        (pftapsClaims sec, patentClaims (pftapsProcessedPatentData pftapsFileName sec)),
        (pftapsInventionTitle sec, inventionTitle (pftapsProcessedPatentData pftapsFileName sec)),
        (pftapsInventionId sec, inventionId (pftapsProcessedPatentData pftapsFileName sec))]"
    by (simp add: pftapsProcessedPatentData_fields fails)
  have ts: "toSchema processedPatentData =
       processedPatentData\<lparr>patentClaims := patentClaims (toSchema processedPatentData)\<rparr>"
    by (simp add: toSchema_def)
  show ?thesis
    apply (intro conjI)
    apply (rule v4ProcessedPatentData_fields v2ProcessedPatentData_fields
                pftapsProcessedPatentData_fields l4 l2 lp ts convertV4_cases convertV2_cases
                convertPftaps_map)+
    done
qed

theorem field_failure_is_local_witness:
  "convertUsptoVersion4XmlDataToJs
     (\<lambda>s. if s = ''<us-patent-grant a></us-patent-grant>''
           then Inr (Obj [(''us-patent-grant'', Str [])])
           else Inr (Obj [(''us-patent-grant'', Obj [(''$'', Obj [(''country'', Str ''US'')])])]))
     ''<us-patent-grant a></us-patent-grant><us-patent-grant b></us-patent-grant>'' =
   Inr [\<lparr>applicationNumber = Null, type = Null, language = Null, country = Null,
         dateProduced = Null, datePublished = Null, dtdVersion = Null, fileName = Null,
         patentStatus = Null, patentClaims = Str ''null'', inventionTitle = Null,
         inventionId = Null\<rparr>,
        \<lparr>applicationNumber = Null, type = Null, language = Undefined, country = Str ''US'',
         dateProduced = Undefined, datePublished = Undefined, dtdVersion = Undefined,
         fileName = Undefined, patentStatus = Undefined, patentClaims = Str ''null'',
         inventionTitle = Null, inventionId = Null\<rparr>]
   \<and> lookupFails (v4Language (Obj [(''us-patent-grant'', Obj [(''$'', Obj [(''country'', Str ''US'')])])]))
   \<and> absent (language (v4ProcessedPatentData
        (Obj [(''us-patent-grant'', Obj [(''$'', Obj [(''country'', Str ''US'')])])])))
   \<and> country (v4ProcessedPatentData
        (Obj [(''us-patent-grant'', Obj [(''$'', Obj [(''country'', Str ''US'')])])])) = Str ''US''
   \<and> convertUsptoVersion2XmlDataToJs
     (\<lambda>s. if s = ''<PATDOC a></PATDOC>''
           then Inr (Obj [(''PATDOC'', Str [])])
           else Inr (Obj [(''PATDOC'', Obj [(''$'', Obj [(''STATUS'', Str ''B1'')])])]))
     ''<PATDOC a></PATDOC><PATDOC b></PATDOC>'' Null =
   Inr [\<lparr>applicationNumber = Null, type = Null, language = Null, country = Null,
         dateProduced = Null, datePublished = Null, dtdVersion = Null, fileName = Null,
         patentStatus = Null, patentClaims = Str ''null'', inventionTitle = Null,
         inventionId = Null\<rparr>,
        \<lparr>applicationNumber = Null, type = Null, language = Null, country = Null,
         dateProduced = Null, datePublished = Null, dtdVersion = Undefined, fileName = Null,
         patentStatus = Str ''B1'', patentClaims = Str ''null'', inventionTitle = Null,
         inventionId = Null\<rparr>]
   \<and> lookupFails (v2DtdVersion (Obj [(''PATDOC'', Obj [(''$'', Obj [(''STATUS'', Str ''B1'')])])]))
   \<and> absent (dtdVersion (v2ProcessedPatentData Null
        (Obj [(''PATDOC'', Obj [(''$'', Obj [(''STATUS'', Str ''B1'')])])])))
   \<and> convertUsptoPftapsDataToJs
       (''PATN'' @ CRLF @ ''TTL  X'' @ CRLF @ ''PATN'' @ CRLF @ ''PNO  7'' @ CRLF) Null =
   Inr [\<lparr>applicationNumber = Null, type = Str ''utility'', language = Null, country = Null,
         dateProduced = Null, datePublished = Null, dtdVersion = Null, fileName = Null,
         patentStatus = Null, patentClaims = Str ''[\"TTL  X\"]'', inventionTitle = Str ''X'',
         inventionId = Null\<rparr>,
        \<lparr>applicationNumber = Str ''7'', type = Str ''utility'', language = Null, country = Null,
         dateProduced = Null, datePublished = Null, dtdVersion = Null, fileName = Null,
         patentStatus = Null, patentClaims = Str ''[\"PNO  7\"]'', inventionTitle = Null,
         inventionId = Null\<rparr>]
   \<and> lookupFails (pftapsApplicationNumber (''TTL  X'' @ CRLF))
   \<and> absent (applicationNumber (pftapsProcessedPatentData Null (''TTL  X'' @ CRLF)))"
proof -
  let ?T1 = "Obj [(''us-patent-grant'', Str [])]"
  let ?T2 = "Obj [(''us-patent-grant'', Obj [(''$'', Obj [(''country'', Str ''US'')])])]"
  let ?P = "\<lambda>s. if s = ''<us-patent-grant a></us-patent-grant>''
           then (Inr ?T1 :: error + jsval) else Inr ?T2"
  let ?X = "''<us-patent-grant a></us-patent-grant><us-patent-grant b></us-patent-grant>''"
  let ?U1 = "Obj [(''PATDOC'', Str [])]"
  let ?U2 = "Obj [(''PATDOC'', Obj [(''$'', Obj [(''STATUS'', Str ''B1'')])])]"
  let ?Q = "\<lambda>s. if s = ''<PATDOC a></PATDOC>'' then (Inr ?U1 :: error + jsval) else Inr ?U2"
  let ?Y = "''<PATDOC a></PATDOC><PATDOC b></PATDOC>''"
  let ?D = "''PATN'' @ CRLF @ ''TTL  X'' @ CRLF @ ''PATN'' @ CRLF @ ''PNO  7'' @ CRLF"
  let ?s = "''TTL  X'' @ CRLF"
  note th4 = field_failure_is_local [where tree = ?T2 and parseString = ?P and xmlData = ?X]
  note th2 = field_failure_is_local
               [where tree = ?U2 and parseString = ?Q and xmlData = ?Y and xmlFileName = Null]
  note thp = field_failure_is_local [where sec = ?s and pftapsData = ?D and pftapsFileName = Null]
  note rec4 = th4 [THEN conjunct1]
  note fails4 = th4 [THEN conjunct2, THEN conjunct2, THEN conjunct2, THEN conjunct1]
  note conv4 = th4 [THEN conjunct2, THEN conjunct2, THEN conjunct2, THEN conjunct2, THEN conjunct2, THEN conjunct2, THEN conjunct2, THEN conjunct1]
  note fails2 = th2 [THEN conjunct2, THEN conjunct2, THEN conjunct2, THEN conjunct2, THEN conjunct1]
  note conv2 = th2 [THEN conjunct2, THEN conjunct2, THEN conjunct2, THEN conjunct2, THEN conjunct2, THEN conjunct2, THEN conjunct2, THEN conjunct2, THEN conjunct1]
  note failsp = thp [THEN conjunct2, THEN conjunct2, THEN conjunct2, THEN conjunct2, THEN conjunct2, THEN conjunct1]
  note convp = thp [THEN conjunct2, THEN conjunct2, THEN conjunct2, THEN conjunct2, THEN conjunct2, THEN conjunct2, THEN conjunct2, THEN conjunct2, THEN conjunct2]
  have c4: "convertUsptoVersion4XmlDataToJs ?P ?X =
   Inr [\<lparr>applicationNumber = Null, type = Null, language = Null, country = Null,
         dateProduced = Null, datePublished = Null, dtdVersion = Null, fileName = Null,
         patentStatus = Null, patentClaims = Str ''null'', inventionTitle = Null,
         inventionId = Null\<rparr>,
        \<lparr>applicationNumber = Null, type = Null, language = Undefined, country = Str ''US'',
         dateProduced = Undefined, datePublished = Undefined, dtdVersion = Undefined,
         fileName = Undefined, patentStatus = Undefined, patentClaims = Str ''null'',
         inventionTitle = Null, inventionId = Null\<rparr>]"
    unfolding conv4 by (simp add: eval_simps)
  have f4: "lookupFails (v4Language ?T2)"
    by (simp add: lookupFails_def v4Language_def)
  from fails4 f4 have a4: "absent (language (v4ProcessedPatentData ?T2))"
    by simp
  have k4: "country (v4ProcessedPatentData ?T2) = Str ''US''"
    unfolding rec4 by (simp add: v4Country_def orNull_def)
  have c2: "convertUsptoVersion2XmlDataToJs ?Q ?Y Null =
   Inr [\<lparr>applicationNumber = Null, type = Null, language = Null, country = Null,
         dateProduced = Null, datePublished = Null, dtdVersion = Null, fileName = Null,
         patentStatus = Null, patentClaims = Str ''null'', inventionTitle = Null,
         inventionId = Null\<rparr>,
        \<lparr>applicationNumber = Null, type = Null, language = Null, country = Null,
         dateProduced = Null, datePublished = Null, dtdVersion = Undefined, fileName = Null,
         patentStatus = Str ''B1'', patentClaims = Str ''null'', inventionTitle = Null,
         inventionId = Null\<rparr>]"
    unfolding conv2 by (simp add: eval_simps)
  have f2: "lookupFails (v2DtdVersion ?U2)"
    by (simp add: lookupFails_def v2DtdVersion_def)
  from fails2 f2 have a2: "absent (dtdVersion (v2ProcessedPatentData Null ?U2))"
    by simp
  have cp: "convertUsptoPftapsDataToJs ?D Null =
   Inr [\<lparr>applicationNumber = Null, type = Str ''utility'', language = Null, country = Null,
         dateProduced = Null, datePublished = Null, dtdVersion = Null, fileName = Null,
         patentStatus = Null, patentClaims = Str ''[\"TTL  X\"]'', inventionTitle = Str ''X'',
         inventionId = Null\<rparr>,
        \<lparr>applicationNumber = Str ''7'', type = Str ''utility'', language = Null, country = Null,
         dateProduced = Null, datePublished = Null, dtdVersion = Null, fileName = Null,
         patentStatus = Null, patentClaims = Str ''[\"PNO  7\"]'', inventionTitle = Null,
         inventionId = Null\<rparr>]"
    unfolding convp by (simp add: eval_simps)
  have fp: "lookupFails (pftapsApplicationNumber ?s)"
    by (simp add: lookupFails_def pftapsApplicationNumber_def pftapsField_def split_def CRLF_def)
  from failsp fp have ap: "absent (applicationNumber (pftapsProcessedPatentData Null ?s))"
    by simp
  from c4 f4 a4 k4 c2 f2 a2 cp fp ap show ?thesis
    by (intro conjI)
qed

text \<open>
  C8. The records come out in the order of the sections, one per section: the
  record at a position of the output is the record of the section at that
  position, in the three dialects. The sections themselves are in the order of
  the bulk file: the first match is followed in the file by the text in which
  the other matches are found; the legacy sections are the pieces of the split
  after the first, no piece contains the record marker, and the pieces joined
  by the marker give the file back.
\<close>

theorem records_in_section_order:
  "(convertUsptoVersion4XmlDataToJs parseString xmlData = Inr out \<longrightarrow>
      list_all2 (\<lambda>patentXmlSection r. \<exists>tree. parseString patentXmlSection = Inr tree
                   \<and> r = toSchema (v4ProcessedPatentData tree))
        (matchAll ''us-patent-grant'' xmlData) out)
   \<and> (convertUsptoVersion2XmlDataToJs parseString xmlData xmlFileName = Inr out2 \<longrightarrow>
      list_all2 (\<lambda>patentXmlSection r. \<exists>tree. parseString patentXmlSection = Inr tree
                   \<and> r = toSchema (v2ProcessedPatentData xmlFileName tree))
        (matchAll ''PATDOC'' xmlData) out2)
   \<and> convertUsptoPftapsDataToJs pftapsData pftapsFileName =
       Inr (map (\<lambda>s. toSchema (pftapsProcessedPatentData pftapsFileName s))
              (drop 1 (split (''PATN'' @ CRLF) pftapsData)))
   \<and> (matchAll tag xmlData = m # ms \<longrightarrow>
        (\<exists>before after. xmlData = before @ m @ after \<and> ms = matchAll tag after))
   \<and> joinWith (''PATN'' @ CRLF) (split (''PATN'' @ CRLF) pftapsData) = pftapsData
   \<and> (\<forall>piece \<in> set (split (''PATN'' @ CRLF) pftapsData).
         \<forall>i. \<not> prefix (''PATN'' @ CRLF) (drop i piece))"
proof -
  have v4: "list_all2 (\<lambda>patentXmlSection r. \<exists>tree. parseString patentXmlSection = Inr tree
                   \<and> r = toSchema (v4ProcessedPatentData tree))
        (matchAll ''us-patent-grant'' xmlData) out"
    if "convertUsptoVersion4XmlDataToJs parseString xmlData = Inr out"
    using convertV4_result [OF that] by (auto intro: list_all2_parsed)
  have v2: "list_all2 (\<lambda>patentXmlSection r. \<exists>tree. parseString patentXmlSection = Inr tree
                   \<and> r = toSchema (v2ProcessedPatentData xmlFileName tree))
        (matchAll ''PATDOC'' xmlData) out2"
    if "convertUsptoVersion2XmlDataToJs parseString xmlData xmlFileName = Inr out2"
    using convertV2_result [OF that] by (auto intro: list_all2_parsed)
  have pf: "convertUsptoPftapsDataToJs pftapsData pftapsFileName =
       Inr (map (\<lambda>s. toSchema (pftapsProcessedPatentData pftapsFileName s))
              (drop 1 (split (''PATN'' @ CRLF) pftapsData)))"
    by (rule convertPftaps_map)
  have jn: "joinWith (''PATN'' @ CRLF) (split (''PATN'' @ CRLF) pftapsData) = pftapsData"
    using joinWith_splitFrom [of "''PATN'' @ CRLF" "[]" pftapsData] by (simp add: split_def)
  have nm: "\<forall>piece \<in> set (split (''PATN'' @ CRLF) pftapsData).
         \<forall>i. \<not> prefix (''PATN'' @ CRLF) (drop i piece)"
    by (auto dest: split_no_sep [rotated])
  have fst: "\<exists>before after. xmlData = before @ m @ after \<and> ms = matchAll tag after"
    if "matchAll tag xmlData = m # ms"
    using that by (rule matchAll_first)
  show ?thesis
    apply (intro conjI impI)
    apply (erule v4 v2 fst | rule pf jn nm)+
    done
qed



theorem records_in_section_order_witness:
  "convertUsptoVersion4XmlDataToJs
     (\<lambda>s. Inr (Obj [(''us-patent-grant'', Obj [(''$'', Obj [(''file'', Str s)])])]))
     ''<us-patent-grant b>2</us-patent-grant>--<US-PATENT-GRANT a>1</US-PATENT-GRANT>'' =
   Inr [\<lparr>applicationNumber = Null, type = Null, language = Undefined, country = Undefined,
         dateProduced = Undefined, datePublished = Undefined, dtdVersion = Undefined,
         fileName = Str ''<us-patent-grant b>2</us-patent-grant>'', patentStatus = Undefined,
         patentClaims = Str ''null'', inventionTitle = Null, inventionId = Null\<rparr>,
        \<lparr>applicationNumber = Null, type = Null, language = Undefined, country = Undefined,
         dateProduced = Undefined, datePublished = Undefined, dtdVersion = Undefined,
         fileName = Str ''<US-PATENT-GRANT a>1</US-PATENT-GRANT>'', patentStatus = Undefined,
         patentClaims = Str ''null'', inventionTitle = Null, inventionId = Null\<rparr>]
   \<and> matchAll ''us-patent-grant''
       ''<us-patent-grant b>2</us-patent-grant>--<US-PATENT-GRANT a>1</US-PATENT-GRANT>'' =
     [''<us-patent-grant b>2</us-patent-grant>'', ''<US-PATENT-GRANT a>1</US-PATENT-GRANT>'']
   \<and> list_all2 (\<lambda>patentXmlSection r. fileName r = Str patentXmlSection)
       (matchAll ''us-patent-grant''
          ''<us-patent-grant b>2</us-patent-grant>--<US-PATENT-GRANT a>1</US-PATENT-GRANT>'')
       [\<lparr>applicationNumber = Null, type = Null, language = Undefined, country = Undefined,
         dateProduced = Undefined, datePublished = Undefined, dtdVersion = Undefined,
         fileName = Str ''<us-patent-grant b>2</us-patent-grant>'', patentStatus = Undefined,
         patentClaims = Str ''null'', inventionTitle = Null, inventionId = Null\<rparr>,
        \<lparr>applicationNumber = Null, type = Null, language = Undefined, country = Undefined,
         dateProduced = Undefined, datePublished = Undefined, dtdVersion = Undefined,
         fileName = Str ''<US-PATENT-GRANT a>1</US-PATENT-GRANT>'', patentStatus = Undefined,
         patentClaims = Str ''null'', inventionTitle = Null, inventionId = Null\<rparr>]
   \<and> (\<exists>before after.
         ''<us-patent-grant b>2</us-patent-grant>--<US-PATENT-GRANT a>1</US-PATENT-GRANT>'' =
           before @ ''<us-patent-grant b>2</us-patent-grant>'' @ after
         \<and> [''<US-PATENT-GRANT a>1</US-PATENT-GRANT>''] = matchAll ''us-patent-grant'' after)
   \<and> convertUsptoVersion2XmlDataToJs
       (\<lambda>s. Inr (Obj [(''PATDOC'', Obj [(''$'', Obj [(''DTD'', Str s)])])]))
       ''<PATDOC a></PATDOC><patdoc b></patdoc>'' Null =
     Inr [\<lparr>applicationNumber = Null, type = Null, language = Null, country = Null,
           dateProduced = Null, datePublished = Null, dtdVersion = Str ''<PATDOC a></PATDOC>'',
           fileName = Null, patentStatus = Undefined, patentClaims = Str ''null'',
           inventionTitle = Null, inventionId = Null\<rparr>,
          \<lparr>applicationNumber = Null, type = Null, language = Null, country = Null,
           dateProduced = Null, datePublished = Null, dtdVersion = Str ''<patdoc b></patdoc>'',
           fileName = Null, patentStatus = Undefined, patentClaims = Str ''null'',
           inventionTitle = Null, inventionId = Null\<rparr>]
   \<and> list_all2 (\<lambda>patentXmlSection r. dtdVersion r = Str patentXmlSection)
       (matchAll ''PATDOC'' ''<PATDOC a></PATDOC><patdoc b></patdoc>'')
       [\<lparr>applicationNumber = Null, type = Null, language = Null, country = Null,
           dateProduced = Null, datePublished = Null, dtdVersion = Str ''<PATDOC a></PATDOC>'',
           fileName = Null, patentStatus = Undefined, patentClaims = Str ''null'',
           inventionTitle = Null, inventionId = Null\<rparr>,
          \<lparr>applicationNumber = Null, type = Null, language = Null, country = Null,
           dateProduced = Null, datePublished = Null, dtdVersion = Str ''<patdoc b></patdoc>'',
           fileName = Null, patentStatus = Undefined, patentClaims = Str ''null'',
           inventionTitle = Null, inventionId = Null\<rparr>]
   \<and> split (''PATN'' @ CRLF)
        (''header'' @ CRLF @ ''PATN'' @ CRLF @ ''PNO  1'' @ CRLF @ ''PATN'' @ CRLF @ ''PNO  2'' @ CRLF)
       = [''header'' @ CRLF, ''PNO  1'' @ CRLF, ''PNO  2'' @ CRLF]
   \<and> convertUsptoPftapsDataToJs
        (''header'' @ CRLF @ ''PATN'' @ CRLF @ ''PNO  1'' @ CRLF @ ''PATN'' @ CRLF @ ''PNO  2'' @ CRLF)
        Null
       = Inr [\<lparr>applicationNumber = Str ''1'', type = Str ''utility'', language = Null,
               country = Null, dateProduced = Null, datePublished = Null, dtdVersion = Null,
               fileName = Null, patentStatus = Null, patentClaims = Str ''[\"PNO  1\"]'',
               inventionTitle = Null, inventionId = Null\<rparr>,
              \<lparr>applicationNumber = Str ''2'', type = Str ''utility'', language = Null,
               country = Null, dateProduced = Null, datePublished = Null, dtdVersion = Null,
               fileName = Null, patentStatus = Null, patentClaims = Str ''[\"PNO  2\"]'',
               inventionTitle = Null, inventionId = Null\<rparr>]
   \<and> joinWith (''PATN'' @ CRLF) [''header'' @ CRLF, ''PNO  1'' @ CRLF, ''PNO  2'' @ CRLF]
       = ''header'' @ CRLF @ ''PATN'' @ CRLF @ ''PNO  1'' @ CRLF @ ''PATN'' @ CRLF @ ''PNO  2'' @ CRLF
   \<and> \<not> prefix (''PATN'' @ CRLF) (drop 0 (''PNO  1'' @ CRLF))"
proof -
  let ?P = "\<lambda>s. (Inr (Obj [(''us-patent-grant'', Obj [(''$'', Obj [(''file'', Str s)])])]) :: error + jsval)"
  let ?X = "''<us-patent-grant b>2</us-patent-grant>--<US-PATENT-GRANT a>1</US-PATENT-GRANT>''"
  let ?out = "[\<lparr>applicationNumber = Null, type = Null, language = Undefined, country = Undefined,
         dateProduced = Undefined, datePublished = Undefined, dtdVersion = Undefined,
         fileName = Str ''<us-patent-grant b>2</us-patent-grant>'', patentStatus = Undefined,
         patentClaims = Str ''null'', inventionTitle = Null, inventionId = Null\<rparr>,
        \<lparr>applicationNumber = Null, type = Null, language = Undefined, country = Undefined,
         dateProduced = Undefined, datePublished = Undefined, dtdVersion = Undefined,
         fileName = Str ''<US-PATENT-GRANT a>1</US-PATENT-GRANT>'', patentStatus = Undefined,
         patentClaims = Str ''null'', inventionTitle = Null, inventionId = Null\<rparr>]"
  have h: "convertUsptoVersion4XmlDataToJs ?P ?X = Inr ?out"
    by (simp add: eval_simps)
  have m: "matchAll ''us-patent-grant'' ?X =
     [''<us-patent-grant b>2</us-patent-grant>'', ''<US-PATENT-GRANT a>1</US-PATENT-GRANT>'']"
    by (simp add: eval_simps)
  from records_in_section_order
         [where parseString = ?P and xmlData = ?X and out = ?out, THEN conjunct1] h
  have "list_all2 (\<lambda>patentXmlSection r. \<exists>tree. ?P patentXmlSection = Inr tree
                   \<and> r = toSchema (v4ProcessedPatentData tree))
        (matchAll ''us-patent-grant'' ?X) ?out"
    by blast
  then have "list_all2 (\<lambda>patentXmlSection r. fileName r = Str patentXmlSection)
        (matchAll ''us-patent-grant'' ?X) ?out"
    by (rule list_all2_mono) (auto simp: v4ProcessedPatentData_fields toSchema_def v4FileName_def orNull_def)
  note v4 = h m this
  from records_in_section_order
         [where tag = "''us-patent-grant''" and xmlData = ?X
            and m = "''<us-patent-grant b>2</us-patent-grant>''"
            and ms = "[''<US-PATENT-GRANT a>1</US-PATENT-GRANT>'']", THEN conjunct2, THEN conjunct2, THEN conjunct2, THEN conjunct1] m
  have first: "\<exists>before after. ?X = before @ ''<us-patent-grant b>2</us-patent-grant>'' @ after
         \<and> [''<US-PATENT-GRANT a>1</US-PATENT-GRANT>''] = matchAll ''us-patent-grant'' after"
    by blast
  let ?P2 = "\<lambda>s. (Inr (Obj [(''PATDOC'', Obj [(''$'', Obj [(''DTD'', Str s)])])]) :: error + jsval)"
  let ?X2 = "''<PATDOC a></PATDOC><patdoc b></patdoc>''"
  let ?out2 = "[\<lparr>applicationNumber = Null, type = Null, language = Null, country = Null,
           dateProduced = Null, datePublished = Null, dtdVersion = Str ''<PATDOC a></PATDOC>'',
           fileName = Null, patentStatus = Undefined, patentClaims = Str ''null'',
           inventionTitle = Null, inventionId = Null\<rparr>,
          \<lparr>applicationNumber = Null, type = Null, language = Null, country = Null,
           dateProduced = Null, datePublished = Null, dtdVersion = Str ''<patdoc b></patdoc>'',
           fileName = Null, patentStatus = Undefined, patentClaims = Str ''null'',
           inventionTitle = Null, inventionId = Null\<rparr>]"
  have h2: "convertUsptoVersion2XmlDataToJs ?P2 ?X2 Null = Inr ?out2"
    by (simp add: eval_simps)
  from records_in_section_order
         [where parseString = ?P2 and xmlData = ?X2 and xmlFileName = Null and ?out2.0 = ?out2,
          THEN conjunct2, THEN conjunct1] h2
  have "list_all2 (\<lambda>patentXmlSection r. \<exists>tree. ?P2 patentXmlSection = Inr tree
                   \<and> r = toSchema (v2ProcessedPatentData Null tree))
        (matchAll ''PATDOC'' ?X2) ?out2"
    by blast
  then have "list_all2 (\<lambda>patentXmlSection r. dtdVersion r = Str patentXmlSection)
        (matchAll ''PATDOC'' ?X2) ?out2"
    by (rule list_all2_mono) (auto simp: v2ProcessedPatentData_fields toSchema_def v2DtdVersion_def orNull_def)
  note v2 = h2 this
  let ?D = "''header'' @ CRLF @ ''PATN'' @ CRLF @ ''PNO  1'' @ CRLF @ ''PATN'' @ CRLF @ ''PNO  2'' @ CRLF"
  note legacy = records_in_section_order [where pftapsData = ?D and pftapsFileName = Null]
  have sp: "split (''PATN'' @ CRLF) ?D = [''header'' @ CRLF, ''PNO  1'' @ CRLF, ''PNO  2'' @ CRLF]"
    by (simp add: split_def CRLF_def)
  have cp: "convertUsptoPftapsDataToJs ?D Null
       = Inr [\<lparr>applicationNumber = Str ''1'', type = Str ''utility'', language = Null,
               country = Null, dateProduced = Null, datePublished = Null, dtdVersion = Null,
               fileName = Null, patentStatus = Null, patentClaims = Str ''[\"PNO  1\"]'',
               inventionTitle = Null, inventionId = Null\<rparr>,
              \<lparr>applicationNumber = Str ''2'', type = Str ''utility'', language = Null,
               country = Null, dateProduced = Null, datePublished = Null, dtdVersion = Null,
               fileName = Null, patentStatus = Null, patentClaims = Str ''[\"PNO  2\"]'',
               inventionTitle = Null, inventionId = Null\<rparr>]"
    unfolding legacy [THEN conjunct2, THEN conjunct2, THEN conjunct1] sp by (simp add: eval_simps)
  have jn: "joinWith (''PATN'' @ CRLF) [''header'' @ CRLF, ''PNO  1'' @ CRLF, ''PNO  2'' @ CRLF] = ?D"
    using legacy [THEN conjunct2, THEN conjunct2, THEN conjunct2, THEN conjunct2, THEN conjunct1] unfolding sp .
  have "''PNO  1'' @ CRLF \<in> set (split (''PATN'' @ CRLF) ?D)"
    unfolding sp by simp
  with legacy [THEN conjunct2, THEN conjunct2, THEN conjunct2, THEN conjunct2, THEN conjunct2]
  have nm: "\<not> prefix (''PATN'' @ CRLF) (drop 0 (''PNO  1'' @ CRLF))"
    by blast
  from v4 first v2 sp cp jn nm show ?thesis
    by (intro conjI)
qed

text \<open>
  C9. In the older XML dialect the id of the invention is read by the same lookup
  as its title: the two lookups are equal on every parsed tree, the two fields
  are equal in the record of every section, and in every record the converter
  returns.
\<close>

theorem v2_inventionId_is_inventionTitle:
  "v2InventionId parsedPatentData = v2InventionTitle parsedPatentData
   \<and> inventionId (v2ProcessedPatentData xmlFileName parsedPatentData) =
     inventionTitle (v2ProcessedPatentData xmlFileName parsedPatentData)
   \<and> (convertUsptoVersion2XmlDataToJs parseString xmlData xmlFileName = Inr out \<longrightarrow>
        (\<forall>r \<in> set out. inventionId r = inventionTitle r))"
proof -
  have same: "v2InventionId parsedPatentData = v2InventionTitle parsedPatentData" for parsedPatentData
    by (simp add: v2InventionId_def v2InventionTitle_def)
  have rec: "inventionId (toSchema (v2ProcessedPatentData f p)) =
             inventionTitle (toSchema (v2ProcessedPatentData f p))" for f p
    by (simp add: v2ProcessedPatentData_fields toSchema_def same)
  have "\<forall>r \<in> set out. inventionId r = inventionTitle r"
    if "convertUsptoVersion2XmlDataToJs parseString xmlData xmlFileName = Inr out"
    using that rec
    by (auto simp: convertUsptoVersion2XmlDataToJs_def v2Loop_mapM split: option.splits sum.splits)
  then show ?thesis
    by (simp add: same v2ProcessedPatentData_fields)
qed

theorem v2_inventionId_is_inventionTitle_witness:
  "convertUsptoVersion2XmlDataToJs
     (\<lambda>s. Inr (Obj [(''PATDOC'', Obj [(''SDOBI'', Arr [Obj [(''B500'', Arr [Obj [(''B540'',
        Arr [Obj [(''STEXT'', Arr [Obj [(''PDAT'', Arr [Str ''Widget''])]])]])]])]])])]))
     ''<PATDOC ></PATDOC>'' Null =
   Inr [\<lparr>applicationNumber = Null, type = Null, language = Null, country = Null,
         dateProduced = Null, datePublished = Null, dtdVersion = Null, fileName = Null,
         patentStatus = Null, patentClaims = Str ''null'',
         inventionTitle = Str ''Widget'', inventionId = Str ''Widget''\<rparr>]
   \<and> inventionId \<lparr>applicationNumber = Null, type = Null, language = Null, country = Null,
         dateProduced = Null, datePublished = Null, dtdVersion = Null, fileName = Null,
         patentStatus = Null, patentClaims = Str ''null'',
         inventionTitle = Str ''Widget'', inventionId = Str ''Widget''\<rparr> = Str ''Widget''"
proof -
  let ?P = "\<lambda>s::string. (Inr (Obj [(''PATDOC'', Obj [(''SDOBI'', Arr [Obj [(''B500'', Arr [Obj [(''B540'',
        Arr [Obj [(''STEXT'', Arr [Obj [(''PDAT'', Arr [Str ''Widget''])]])]])]])]])])]) :: error + jsval)"
  let ?R = "\<lparr>applicationNumber = Null, type = Null, language = Null, country = Null,
         dateProduced = Null, datePublished = Null, dtdVersion = Null, fileName = Null,
         patentStatus = Null, patentClaims = Str ''null'',
         inventionTitle = Str ''Widget'', inventionId = Str ''Widget''\<rparr>"
  have h: "convertUsptoVersion2XmlDataToJs ?P ''<PATDOC ></PATDOC>'' Null = Inr [?R]"
    by (simp add: eval_simps)
  from v2_inventionId_is_inventionTitle
         [where parseString = ?P and xmlData = "''<PATDOC ></PATDOC>''" and xmlFileName = Null
            and out = "[?R]"] h
  show ?thesis by simp
qed

text \<open>
  C10. In the legacy dialect the id of the invention and the publication date are
  both read from the first line with the prefix \<^verbatim>\<open>ISD\<close> and two spaces: the two
  fields are equal in the record of every section, and in every record the
  converter returns.
\<close>

theorem pftaps_inventionId_is_datePublished:
  "pftapsInventionId section = pftapsField ''ISD  '' section
   \<and> pftapsDatePublished section = pftapsField ''ISD  '' section
   \<and> inventionId (pftapsProcessedPatentData pftapsFileName section) =
     datePublished (pftapsProcessedPatentData pftapsFileName section)
   \<and> (convertUsptoPftapsDataToJs pftapsData pftapsFileName = Inr out \<longrightarrow>
        (\<forall>r \<in> set out. inventionId r = datePublished r))"
  by (auto simp: pftapsProcessedPatentData_fields toSchema_def pftapsInventionId_def
      pftapsDatePublished_def convertUsptoPftapsDataToJs_def pftapsLoop_map)

theorem pftaps_inventionId_is_datePublished_witness:
  "convertUsptoPftapsDataToJs (''PATN'' @ CRLF @ ''ISD  19800101'' @ CRLF) Null =
   Inr [\<lparr>applicationNumber = Null, type = Str ''utility'', language = Null, country = Null,
         dateProduced = Null, datePublished = Str ''19800101'', dtdVersion = Null,
         fileName = Null, patentStatus = Null, patentClaims = Str ''[\"ISD  19800101\"]'',
         inventionTitle = Null, inventionId = Str ''19800101''\<rparr>]
   \<and> inventionId \<lparr>applicationNumber = Null, type = Str ''utility'', language = Null, country = Null,
         dateProduced = Null, datePublished = Str ''19800101'', dtdVersion = Null,
         fileName = Null, patentStatus = Null, patentClaims = Str ''[\"ISD  19800101\"]'',
         inventionTitle = Null, inventionId = Str ''19800101''\<rparr> = Str ''19800101''"
proof -
  let ?R = "\<lparr>applicationNumber = Null, type = Str ''utility'', language = Null, country = Null,
         dateProduced = Null, datePublished = Str ''19800101'', dtdVersion = Null,
         fileName = Null, patentStatus = Null, patentClaims = Str ''[\"ISD  19800101\"]'',
         inventionTitle = Null, inventionId = Str ''19800101''\<rparr>"
  have h: "convertUsptoPftapsDataToJs (''PATN'' @ CRLF @ ''ISD  19800101'' @ CRLF) Null = Inr [?R]"
    by (simp add: eval_simps)
  from pftaps_inventionId_is_datePublished
         [where pftapsData = "''PATN'' @ CRLF @ ''ISD  19800101'' @ CRLF" and pftapsFileName = Null
            and out = "[?R]"] h
  show ?thesis by simp
qed

end
